theory Spec2Isabelle
  imports Main "HOL-Library.Sublist"
begin

section \<open>JavaScript values\<close>

text \<open>
  The values a request handler can hand to \<open>render_endpoint\<close>. Numbers are restricted
  to integers (status codes); \<open>bigint\<close> and \<open>symbol\<close> are left out. Own properties are
  carried by plain objects only: the built-in objects below have no property named
  \<open>fallthrough\<close>, \<open>status\<close>, \<open>body\<close> or \<open>headers\<close>. A \<open>Headers\<close> instance is a
  reference into the heap of header lists, so that aliasing is visible.
\<close>

datatype js_value =
    JUndefined
  | JNull
  | JBoolean bool
  | JNumber int
  | JString string
  | JStringObject string
  | JFunction nat
  | JUint8Array "nat list"
  | JReadableStream nat
  | JError string
  | JHeaders nat
  | JArray "js_value list"
  | JObject "(string \<times> js_value) list"

text \<open>
  What a \<open>throw\<close> carries: an \<open>Error\<close>, a \<open>TypeError\<close>, a \<open>RangeError\<close> or any value
  a handler throws. The texts of the errors the platform throws differ between engines.
\<close>

datatype exn = Error string | TypeError string | RangeError string | Thrown js_value

fun typeof :: "js_value \<Rightarrow> string" where
  "typeof JUndefined = ''undefined''"
| "typeof JNull = ''object''"
| "typeof (JBoolean b) = ''boolean''"
| "typeof (JNumber n) = ''number''"
| "typeof (JString s) = ''string''"
| "typeof (JFunction f) = ''function''"
| "typeof v = ''object''"

text \<open>JavaScript truthiness, as used by \<open>if (x)\<close>, \<open>!x\<close>, \<open>x ? a : b\<close> and \<open>||\<close>.\<close>

fun truthy :: "js_value \<Rightarrow> bool" where
  "truthy JUndefined = False"
| "truthy JNull = False"
| "truthy (JBoolean b) = b"
| "truthy (JNumber n) = (n \<noteq> 0)"
| "truthy (JString s) = (s \<noteq> [])"
| "truthy v = True"

text \<open>Property read \<open>v[k]\<close> on a value that is neither \<open>null\<close> nor \<open>undefined\<close>.\<close>

fun get_prop :: "js_value \<Rightarrow> string \<Rightarrow> js_value" where
  "get_prop (JObject ps) k = (case map_of ps k of Some v \<Rightarrow> v | None \<Rightarrow> JUndefined)"
| "get_prop v k = JUndefined"

text \<open>A destructuring default \<open>{ x = d }\<close>: the default applies to \<open>undefined\<close> only.\<close>

fun default_to :: "js_value \<Rightarrow> js_value \<Rightarrow> js_value" where
  "default_to d JUndefined = d"
| "default_to d v = v"

fun instanceof_String :: "js_value \<Rightarrow> bool" where
  "instanceof_String (JStringObject s) = True"
| "instanceof_String v = False"

fun instanceof_Uint8Array :: "js_value \<Rightarrow> bool" where
  "instanceof_Uint8Array (JUint8Array bs) = True"
| "instanceof_Uint8Array v = False"

fun instanceof_ReadableStream :: "js_value \<Rightarrow> bool" where
  "instanceof_ReadableStream (JReadableStream r) = True"
| "instanceof_ReadableStream v = False"

fun instanceof_Error :: "js_value \<Rightarrow> bool" where
  "instanceof_Error (JError m) = True"
| "instanceof_Error v = False"

section \<open>Strings and arrays\<close>

definition to_lower_case :: "string \<Rightarrow> string" where
  \<comment> \<open>\<open>String.prototype.toLowerCase\<close> on ASCII text\<close>
  "to_lower_case s =
     map (\<lambda>c. case map_of (zip ''ABCDEFGHIJKLMNOPQRSTUVWXYZ'' ''abcdefghijklmnopqrstuvwxyz'') c of
                Some l \<Rightarrow> l
              | None \<Rightarrow> c) s"

fun join :: "string \<Rightarrow> string list \<Rightarrow> string" where
  \<comment> \<open>\<open>Array.prototype.join\<close>\<close>
  "join sep [] = []"
| "join sep [x] = x"
| "join sep (x # y # ys) = x @ sep @ join sep (y # ys)"

fun includes_str :: "string \<Rightarrow> string \<Rightarrow> bool" where
  \<comment> \<open>\<open>includes_str s sub\<close>: \<open>sub\<close> occurs in \<open>s\<close>\<close>
  "includes_str [] sub = (sub = [])"
| "includes_str (c # cs) sub = (prefix sub (c # cs) \<or> includes_str cs sub)"

fun decimal :: "nat \<Rightarrow> string" where
  \<comment> \<open>a number as a string, as an array index is turned into a property key\<close>
  "decimal n =
     (if n < 10 then [''0123456789'' ! n]
      else decimal (n div 10) @ [''0123456789'' ! (n mod 10)])"

definition for_in_keys :: "'a list \<Rightarrow> string list" where
  \<comment> \<open>the keys a \<open>for (const k in array)\<close> loop visits: the indices, as strings\<close>
  "for_in_keys xs = map decimal [0..<length xs]"

section \<open>The platform's Headers class\<close>

text \<open>
  A \<open>Headers\<close> object holds a header list: names are stored in lower case, \<open>get\<close>
  combines the values of a name with a comma and a space, \<open>set\<close> overwrites the first
  entry of the name and removes the others, or appends.
\<close>

type_synonym header_list = "(string \<times> string) list"

definition headers_has :: "header_list \<Rightarrow> string \<Rightarrow> bool" where
  "headers_has h name = (map_of h (to_lower_case name) \<noteq> None)"

definition headers_get :: "header_list \<Rightarrow> string \<Rightarrow> string option" where
  "headers_get h name =
     (case map snd (filter (\<lambda>(k, v). k = to_lower_case name) h) of
        [] \<Rightarrow> None
      | vs \<Rightarrow> Some (join '', '' vs))"

fun set_first :: "string \<Rightarrow> string \<Rightarrow> header_list \<Rightarrow> header_list" where
  "set_first n v [] = [(n, v)]"
| "set_first n v ((k, w) # h) =
     (if k = n then (n, v) # filter (\<lambda>(k', w'). k' \<noteq> n) h else (k, w) # set_first n v h)"

definition headers_set :: "header_list \<Rightarrow> string \<Rightarrow> string \<Rightarrow> header_list" where
  "headers_set h name v = set_first (to_lower_case name) v h"

text \<open>
  The heap of \<open>Headers\<close> objects: an address is an index. \<open>new Headers(...)\<close> allocates
  at the end; \<open>headers.set\<close> updates in place. Every reference a program holds is in range;
  a read out of range gives the empty list.
\<close>

type_synonym heap = "header_list list"

definition heap_get :: "heap \<Rightarrow> nat \<Rightarrow> header_list" where
  "heap_get heap a = (if a < length heap then heap ! a else [])"

definition heap_new :: "heap \<Rightarrow> header_list \<Rightarrow> nat \<times> heap" where
  "heap_new heap h = (length heap, heap @ [h])"

definition heap_set :: "heap \<Rightarrow> nat \<Rightarrow> string \<Rightarrow> string \<Rightarrow> heap" where
  \<comment> \<open>\<open>headers.set(name, v)\<close> on the object at address \<open>a\<close>\<close>
  "heap_set heap a name v =
     (if a < length heap then heap[a := headers_set (heap ! a) name v] else heap)"

text \<open>
  A \<open>Response\<close>: its body (\<open>undefined\<close> when it has none, else a string, a byte array or a
  stream), its status (a number) and its header list.
\<close>

datatype response = Response (res_body: js_value) (res_status: js_value) (res_headers: header_list)

section \<open>The request event, handlers and modules\<close>

record request =
  request_method :: string
  request_headers :: header_list

record url =
  pathname :: string

record event =
  request :: request
  url :: url

type_synonym handler = "event \<Rightarrow> heap \<Rightarrow> (exn + js_value) \<times> heap"

type_synonym module = "string \<rightharpoonup> handler"

record options =
  get_stack :: "js_value \<Rightarrow> js_value"

text \<open>
  The functions \<open>render_endpoint\<close> imports from files that are not part of the sources
  (\<open>utils.js\<close>, \<open>hash.js\<close>, \<open>http.js\<close>) are parameters of the model, and so are three
  operations of the language: \<open>JSON.stringify\<close>, and the conversions \<open>ToNumber\<close> (followed
  by the truncation to an integer, which gives 0 for \<open>NaN\<close> and the infinities) and
  \<open>ToString\<close>, which the \<open>Response\<close> constructor applies to a status that is not a number
  and to a body that is not a string. Each may throw, except \<open>hash\<close>.
\<close>

record deps =
  check_method_names :: "module \<Rightarrow> exn option"
  is_pojo :: "js_value \<Rightarrow> exn + bool"
  serialize_error :: "js_value \<Rightarrow> (js_value \<Rightarrow> js_value) \<Rightarrow> exn + js_value"
  hash :: "js_value \<Rightarrow> string"
  to_headers :: "js_value \<Rightarrow> exn + header_list"
  JSON_stringify :: "js_value \<Rightarrow> exn + js_value"
  ToNumber :: "js_value \<Rightarrow> exn + int"
  ToString :: "js_value \<Rightarrow> exn + string"

section \<open>The platform's Response constructor\<close>

text \<open>
  \<open>new Response(body, { status, headers })\<close> as the Fetch standard defines it. The
  arguments are converted first: a body that is neither \<open>undefined\<close>, \<open>null\<close>, a byte array
  nor a stream becomes a string, and the status becomes an unsigned 16-bit integer. A status
  outside 200 to 599 is a \<open>RangeError\<close>; a body with a null body status (101, 103, 204,
  205, 304) is a \<open>TypeError\<close>. The header entries are copied, and a body that is a string
  adds the content-type \<open>text/plain;charset=UTF-8\<close> when there is none.
\<close>

definition null_body_status :: "int list" where
  "null_body_status = [101, 103, 204, 205, 304]"

definition response_body :: "deps \<Rightarrow> js_value \<Rightarrow> exn + js_value" where
  \<comment> \<open>the body of the response made from the argument \<open>body\<close>\<close>
  "response_body D body =
     (case body of
        JUndefined \<Rightarrow> Inr JUndefined
      | JNull \<Rightarrow> Inr JUndefined
      | JString s \<Rightarrow> Inr (JString s)
      | JUint8Array bs \<Rightarrow> Inr (JUint8Array bs)
      | JReadableStream r \<Rightarrow> Inr (JReadableStream r)
      | _ \<Rightarrow> (case ToString D body of Inl e \<Rightarrow> Inl e | Inr s \<Rightarrow> Inr (JString s)))"

definition body_type :: "js_value \<Rightarrow> string option" where
  \<comment> \<open>the content-type that comes with the argument \<open>body\<close>, if any\<close>
  "body_type body =
     (case body of
        JUndefined \<Rightarrow> None
      | JNull \<Rightarrow> None
      | JUint8Array bs \<Rightarrow> None
      | JReadableStream r \<Rightarrow> None
      | _ \<Rightarrow> Some ''text/plain;charset=UTF-8'')"

definition response_status :: "deps \<Rightarrow> js_value \<Rightarrow> exn + int" where
  "response_status D status =
     (case (case status of JNumber n \<Rightarrow> Inr n | _ \<Rightarrow> ToNumber D status) of
        Inl e \<Rightarrow> Inl e
      | Inr n \<Rightarrow> Inr (n mod 65536))"

definition new_Response :: "deps \<Rightarrow> js_value \<Rightarrow> js_value \<Rightarrow> header_list \<Rightarrow> exn + response" where
  "new_Response D body status headers =
     (case response_body D body of
        Inl e \<Rightarrow> Inl e
      | Inr b \<Rightarrow>
          (case response_status D status of
             Inl e \<Rightarrow> Inl e
           | Inr s \<Rightarrow>
               if s < 200 \<or> 599 < s
               then Inl (RangeError ''The status provided is outside the range 200 to 599'')
               else if body = JUndefined \<or> body = JNull
               then Inr (Response JUndefined (JNumber s) headers)
               else if s \<in> set null_body_status
               then Inl (TypeError ''Response with null body status cannot have body'')
               else Inr (Response b (JNumber s)
                           (case body_type body of
                              None \<Rightarrow> headers
                            | Some t \<Rightarrow>
                                if headers_has headers ''content-type'' then headers
                                else headers @ [(''content-type'', t)]))))"

section \<open>endpoint.js\<close>

definition error :: "deps \<Rightarrow> string \<Rightarrow> exn + response" where
  "error D body = new_Response D (JString body) (JNumber 500) []"

definition is_string :: "js_value \<Rightarrow> bool" where
  "is_string s = (typeof s = ''string'' \<or> instanceof_String s)"

definition text_types :: "string list" where
  "text_types =
     [''application/xml'', ''application/json'', ''application/x-www-form-urlencoded'',
      ''multipart/form-data'']"

definition bodyless_status_codes :: "js_value list" where
  "bodyless_status_codes = [JNumber 101, JNumber 204, JNumber 205, JNumber 304]"

definition is_text :: "string option \<Rightarrow> bool" where
  "is_text content_type =
     (case content_type of
        None \<Rightarrow> True
      | Some ct \<Rightarrow>
          if ct = [] then True
          else (let type = to_lower_case (takeWhile (\<lambda>c. c \<noteq> CHR '';'') ct)
                in prefix ''text/'' type \<or> suffix ''+xml'' type \<or> type \<in> set text_types))"

fun defined :: "'a option \<Rightarrow> bool" where
  \<comment> \<open>truthiness of a module entry \<open>mod[name]\<close>: a handler, or \<open>undefined\<close>\<close>
  "defined None = False"
| "defined (Some h) = True"

fun truthy_str :: "string option \<Rightarrow> bool" where
  \<comment> \<open>truthiness of what \<open>headers.get\<close> returns: \<open>null\<close> or a string\<close>
  "truthy_str None = False"
| "truthy_str (Some s) = (s \<noteq> [])"

definition no_handler_response :: "deps \<Rightarrow> event \<Rightarrow> module \<Rightarrow> exn + response" where
  \<comment> \<open>lines 57 to 80: no handler was found\<close>
  "no_handler_response D event modl =
     (let allowed = [];
          allowed =
            allowed @
            filter (\<lambda>method. defined (modl method))
              (for_in_keys [''GET'', ''POST'', ''PUT'', ''PATCH'', ''DELETE'']);
          allowed =
            (if defined (modl ''GET'') \<or> defined (modl ''HEAD'') then allowed @ [''HEAD''] else allowed)
      in if truthy_str (headers_get (request_headers (request event)) ''x-sveltekit-load'')
         then new_Response D JUndefined (JNumber 204) []
         else new_Response D (JString (request_method (request event) @ '' method not allowed''))
                (JNumber 405) [(''allow'', join '', '' allowed)])"

definition make_headers :: "deps \<Rightarrow> js_value \<Rightarrow> heap \<Rightarrow> (exn + nat) \<times> heap" where
  \<comment> \<open>lines 98 to 101: a copy of a \<open>Headers\<close> instance, or \<open>to_headers\<close> of anything else\<close>
  "make_headers D hs heap =
     (case hs of
        JHeaders a \<Rightarrow> (let (r, heap') = heap_new heap (heap_get heap a) in (Inr r, heap'))
      | _ \<Rightarrow>
          (case to_headers D hs of
             Inl e \<Rightarrow> (Inl e, heap)
           | Inr h \<Rightarrow> (let (r, heap') = heap_new heap h in (Inr r, heap'))))"

definition encode_body ::
  "deps \<Rightarrow> options \<Rightarrow> string option \<Rightarrow> js_value \<Rightarrow> heap \<Rightarrow> nat \<Rightarrow> (exn + js_value) \<times> heap" where
  \<comment> \<open>lines 117 to 123: \<open>normalized_body\<close>, and the write to \<open>headers\<close>\<close>
  "encode_body D options type body heap headers =
     (case is_pojo D body of
        Inl e \<Rightarrow> (Inl e, heap)
      | Inr pojo \<Rightarrow>
          if pojo \<and> (case type of None \<Rightarrow> True | Some t \<Rightarrow> t = [] \<or> prefix ''application/json'' t)
          then (let heap' = heap_set heap headers ''content-type'' ''application/json; charset=utf-8''
                in (if instanceof_Error body then serialize_error D body (get_stack options)
                    else JSON_stringify D body, heap'))
          else (Inr body, heap))"

definition add_etag :: "deps \<Rightarrow> js_value \<Rightarrow> heap \<Rightarrow> nat \<Rightarrow> heap" where
  \<comment> \<open>lines 125 to 133\<close>
  "add_etag D normalized_body heap headers =
     (if (typeof normalized_body = ''string'' \<or> instanceof_Uint8Array normalized_body) \<and>
         \<not> headers_has (heap_get heap headers) ''etag''
      then (let cache_control = headers_get (heap_get heap headers) ''cache-control''
            in if \<not> truthy_str cache_control \<or>
                  \<not> (includes_str (the cache_control) ''no-store'' \<or>
                     includes_str (the cache_control) ''immutable'')
               then heap_set heap headers ''etag''
                      ([CHR 0x22] @ hash D normalized_body @ [CHR 0x22])
               else heap)
      else heap)"

definition normalize_response ::
  "deps \<Rightarrow> event \<Rightarrow> options \<Rightarrow> js_value \<Rightarrow> heap \<Rightarrow> (exn + response) \<times> heap" where
  \<comment> \<open>lines 83 to 141: what \<open>render_endpoint\<close> does with the value the handler returned\<close>
  "normalize_response D event options response heap =
     (let method = request_method (request event);
          preface = ''Invalid response from route '' @ pathname (url event)
      in if typeof response \<noteq> ''object''
         then (error D (preface @ '': expected an object, got '' @ typeof response), heap)
         else if response = JNull
         then (Inl (TypeError ''Cannot read properties of null (reading fallthrough)''), heap)
         else if truthy (get_prop response ''fallthrough'')
         then (Inl (Error (''fallthrough is no longer supported. Use matchers instead: '' @
                           ''https://kit.svelte.dev/docs/routing#advanced-routing-matching'')), heap)
         else
           (let status = default_to (JNumber 200) (get_prop response ''status'');
                body = default_to (JObject []) (get_prop response ''body'')
            in case make_headers D (get_prop response ''headers'') heap of
                 (Inl e, heap1) \<Rightarrow> (Inl e, heap1)
               | (Inr headers, heap1) \<Rightarrow>
                   (let type = headers_get (heap_get heap1 headers) ''content-type''
                    in if \<not> is_text type \<and>
                          \<not> (instanceof_Uint8Array body \<or> instanceof_ReadableStream body \<or>
                             is_string body)
                       then (error D (preface @
                               '': body must be an instance of string, Uint8Array or ReadableStream if content-type is not a supported textual content-type''),
                             heap1)
                       else
                         (case encode_body D options type body heap1 headers of
                            (Inl e, heap2) \<Rightarrow> (Inl e, heap2)
                          | (Inr normalized_body, heap2) \<Rightarrow>
                              (let heap3 = add_etag D normalized_body heap2 headers
                               in (new_Response D
                                     (if method \<noteq> ''HEAD'' \<and> status \<notin> set bodyless_status_codes
                                      then normalized_body else JUndefined)
                                     status (heap_get heap3 headers),
                                   heap3))))))"

definition render_endpoint ::
  "deps \<Rightarrow> event \<Rightarrow> module \<Rightarrow> options \<Rightarrow> heap \<Rightarrow> (exn + response) \<times> heap" where
  "render_endpoint D event modl options heap =
     (let method = request_method (request event)
      in case check_method_names D modl of
           Some e \<Rightarrow> (Inl e, heap)
         | None \<Rightarrow>
             (let handler = modl method;
                  handler = (if \<not> defined handler \<and> method = ''HEAD'' then modl ''GET'' else handler)
              in case handler of
                   None \<Rightarrow> (no_handler_response D event modl, heap)
                 | Some handler \<Rightarrow>
                     (case handler event heap of
                        (Inl e, heap0) \<Rightarrow> (Inl e, heap0)
                      | (Inr response, heap0) \<Rightarrow> normalize_response D event options response heap0)))"

section \<open>Vocabulary of the properties\<close>

text \<open>
  \<open>dispatched\<close>: \<open>check_method_names\<close> accepts the module, a handler is found for the
  request's method (lines 51 to 55), and its call returns \<open>response\<close>, leaving the heap
  \<open>heap0\<close>.
\<close>

definition dispatched :: "deps \<Rightarrow> event \<Rightarrow> module \<Rightarrow> heap \<Rightarrow> js_value \<Rightarrow> heap \<Rightarrow> bool" where
  "dispatched D event modl heap response heap0 =
     (case check_method_names D modl of
        Some e \<Rightarrow> False
      | None \<Rightarrow>
          (case (if \<not> defined (modl (request_method (request event))) \<and>
                    request_method (request event) = ''HEAD''
                 then modl ''GET'' else modl (request_method (request event))) of
             None \<Rightarrow> False
           | Some handler \<Rightarrow> handler event heap = (Inr response, heap0)))"

text \<open>
  \<open>accepted\<close>: the returned value passes the checks of lines 85 to 112 (it is an object, it
  has no truthy \<open>fallthrough\<close>, its body is allowed for its content-type), with \<open>headers\<close>
  the address of the \<open>Headers\<close> object of lines 98 to 101 and \<open>heap1\<close> the heap then.
\<close>

definition accepted :: "deps \<Rightarrow> js_value \<Rightarrow> heap \<Rightarrow> nat \<Rightarrow> heap \<Rightarrow> bool" where
  "accepted D response heap0 headers heap1 =
     (typeof response = ''object'' \<and> response \<noteq> JNull \<and>
      \<not> truthy (get_prop response ''fallthrough'') \<and>
      make_headers D (get_prop response ''headers'') heap0 = (Inr headers, heap1) \<and>
      (is_text (headers_get (heap_get heap1 headers) ''content-type'') \<or>
       instanceof_Uint8Array (default_to (JObject []) (get_prop response ''body'')) \<or>
       instanceof_ReadableStream (default_to (JObject []) (get_prop response ''body'')) \<or>
       is_string (default_to (JObject []) (get_prop response ''body''))))"

text \<open>
  The \<open>allow\<close> list as the specification words it: the methods among GET, POST, PUT, PATCH
  and DELETE that the module has, then HEAD if it has GET.
\<close>

abbreviation status_of :: "js_value \<Rightarrow> js_value" where
  \<comment> \<open>line 97: \<open>status = 200\<close>\<close>
  "status_of response \<equiv> default_to (JNumber 200) (get_prop response ''status'')"

abbreviation body_of :: "js_value \<Rightarrow> js_value" where
  \<comment> \<open>line 97: \<open>body = {}\<close>\<close>
  "body_of response \<equiv> default_to (JObject []) (get_prop response ''body'')"

definition specified_allowed :: "module \<Rightarrow> string list" where
  "specified_allowed modl =
     filter (\<lambda>m. defined (modl m)) [''GET'', ''POST'', ''PUT'', ''PATCH'', ''DELETE''] @
     (if defined (modl ''GET'') then [''HEAD''] else [])"

section \<open>An instance of the imported functions\<close>

text \<open>
  The theorems below hold for every choice of the imported functions. The concrete
  evaluations use this one: \<open>check_method_names\<close> accepts the module, \<open>is_pojo\<close> holds of
  objects other than byte arrays and streams, \<open>to_headers\<close> reads the string entries of a
  plain object, \<open>JSON.stringify\<close> is a JSON printer for the values above, \<open>serialize_error\<close>
  prints the message (and the stack, when \<open>get_stack\<close> gives one), \<open>hash\<close> is a
  multiplicative string hash printed in decimal, \<open>ToNumber\<close> reads booleans and strings
  of decimal digits, and \<open>ToString\<close> prints primitive values, errors, byte arrays and
  platform objects, and \<open>[object Object]\<close> otherwise.
\<close>

definition json_quote :: "string \<Rightarrow> string" where
  "json_quote s =
     [CHR 0x22] @
     concat (map (\<lambda>c. if c = CHR 0x22 \<or> c = CHR 0x5C then [CHR 0x5C, c] else [c]) s) @
     [CHR 0x22]"

definition string_of_int :: "int \<Rightarrow> string" where
  "string_of_int i = (if i < 0 then ''-'' @ decimal (nat (- i)) else decimal (nat i))"

fun json_text :: "js_value \<Rightarrow> string option"
  and json_elems :: "js_value list \<Rightarrow> string list"
  and json_props :: "(string \<times> js_value) list \<Rightarrow> string list" where
  "json_text JUndefined = None"
| "json_text (JFunction f) = None"
| "json_text JNull = Some ''null''"
| "json_text (JBoolean b) = Some (if b then ''true'' else ''false'')"
| "json_text (JNumber n) = Some (string_of_int n)"
| "json_text (JString s) = Some (json_quote s)"
| "json_text (JStringObject s) = Some (json_quote s)"
| "json_text (JArray xs) = Some (''['' @ join '','' (json_elems xs) @ '']'')"
| "json_text (JObject ps) = Some (''{'' @ join '','' (json_props ps) @ ''}'')"
| "json_text (JUint8Array bs) =
     Some (''{'' @
           join '','' (map (\<lambda>(k, b). json_quote k @ '':'' @ decimal b) (zip (for_in_keys bs) bs)) @
           ''}'')"
| "json_text v = Some ''{}''"
| "json_elems [] = []"
| "json_elems (x # xs) = (case json_text x of None \<Rightarrow> ''null'' | Some t \<Rightarrow> t) # json_elems xs"
| "json_props [] = []"
| "json_props ((k, v) # ps) =
     (case json_text v of
        None \<Rightarrow> json_props ps
      | Some t \<Rightarrow> (json_quote k @ '':'' @ t) # json_props ps)"

definition sample_stringify :: "js_value \<Rightarrow> exn + js_value" where
  "sample_stringify v = Inr (case json_text v of None \<Rightarrow> JUndefined | Some t \<Rightarrow> JString t)"

definition sample_hash :: "js_value \<Rightarrow> string" where
  "sample_hash v =
     (case v of
        JString s \<Rightarrow> decimal (foldl (\<lambda>h c. (h * 33 + of_char c) mod 4294967296) 5381 s)
      | JUint8Array bs \<Rightarrow> decimal (foldl (\<lambda>h b. (h * 33 + b) mod 4294967296) 5381 bs)
      | _ \<Rightarrow> ''0'')"

fun sample_to_headers :: "js_value \<Rightarrow> exn + header_list" where
  "sample_to_headers (JObject ps) =
     Inr (concat (map (\<lambda>(k, v). case v of JString s \<Rightarrow> if s = [] then [] else [(to_lower_case k, s)]
                                  | _ \<Rightarrow> []) ps))"
| "sample_to_headers v = Inr []"

definition sample_serialize_error :: "js_value \<Rightarrow> (js_value \<Rightarrow> js_value) \<Rightarrow> exn + js_value" where
  "sample_serialize_error e stack =
     sample_stringify
       (JObject [(''message'', case e of JError m \<Rightarrow> JString m | _ \<Rightarrow> JUndefined),
                 (''stack'', stack e)])"

definition sample_to_number :: "js_value \<Rightarrow> exn + int" where
  "sample_to_number v =
     (case v of
        JBoolean b \<Rightarrow> Inr (if b then 1 else 0)
      | JString s \<Rightarrow>
          Inr (if list_all (\<lambda>c. c \<in> set ''0123456789'') s
               then foldl (\<lambda>n c. 10 * n + int (length (takeWhile (\<lambda>d. d \<noteq> c) ''0123456789''))) 0 s
               else 0)
      | _ \<Rightarrow> Inr 0)"

definition sample_to_string :: "js_value \<Rightarrow> exn + string" where
  "sample_to_string v =
     (case v of
        JUndefined \<Rightarrow> Inr ''undefined''
      | JNull \<Rightarrow> Inr ''null''
      | JBoolean b \<Rightarrow> Inr (if b then ''true'' else ''false'')
      | JNumber n \<Rightarrow> Inr (string_of_int n)
      | JString s \<Rightarrow> Inr s
      | JStringObject s \<Rightarrow> Inr s
      | JError m \<Rightarrow> Inr (''Error: '' @ m)
      | JHeaders a \<Rightarrow> Inr ''[object Headers]''
      | JReadableStream r \<Rightarrow> Inr ''[object ReadableStream]''
      | JUint8Array bs \<Rightarrow> Inr (join '','' (map decimal bs))
      | _ \<Rightarrow> Inr ''[object Object]'')"

definition sample_deps :: deps where
  "sample_deps =
     \<lparr> check_method_names = (\<lambda>modl. None),
       is_pojo = (\<lambda>v. Inr (typeof v = ''object'' \<and> \<not> instanceof_Uint8Array v \<and>
                            \<not> instanceof_ReadableStream v)),
       serialize_error = sample_serialize_error,
       hash = sample_hash,
       to_headers = sample_to_headers,
       JSON_stringify = sample_stringify,
       ToNumber = sample_to_number,
       ToString = sample_to_string \<rparr>"

definition sample_options :: options where
  "sample_options = \<lparr> get_stack = (\<lambda>e. JUndefined) \<rparr>"

definition sample_event :: "string \<Rightarrow> header_list \<Rightarrow> event" where
  \<comment> \<open>a request for \<open>/api\<close> with the given method and request headers\<close>
  "sample_event m hs =
     \<lparr> request = \<lparr> request_method = m, request_headers = hs \<rparr>, url = \<lparr> pathname = ''/api'' \<rparr> \<rparr>"

definition returning :: "js_value \<Rightarrow> handler" where
  \<comment> \<open>a handler that returns the given value\<close>
  "returning v = (\<lambda>event heap. (Inr v, heap))"

definition returning_with_headers :: "header_list \<Rightarrow> (string \<times> js_value) list \<Rightarrow> handler" where
  \<comment> \<open>a handler that builds a \<open>Headers\<close> object and returns it in an object with the given
      other properties\<close>
  "returning_with_headers hs ps =
     (\<lambda>event heap. (Inr (JObject ((''headers'', JHeaders (length heap)) # ps)), heap @ [hs]))"

section \<open>Evaluation and basic facts\<close>

declare decimal.simps [simp del]

lemmas model_defs = render_endpoint_def normalize_response_def no_handler_response_def
  make_headers_def encode_body_def add_etag_def error_def is_string_def is_text_def text_types_def
  new_Response_def response_body_def response_status_def body_type_def null_body_status_def
  bodyless_status_codes_def headers_get_def headers_has_def headers_set_def heap_get_def
  heap_new_def heap_set_def to_lower_case_def for_in_keys_def dispatched_def accepted_def
  decimal.simps upt_rec suffix_to_prefix

lemmas sample_defs = sample_deps_def sample_options_def sample_event_def returning_def
  returning_with_headers_def sample_stringify_def sample_hash_def sample_serialize_error_def
  json_quote_def string_of_int_def sample_to_number_def sample_to_string_def

lemma render_endpoint_dispatched:
  assumes "dispatched D event modl heap response heap0"
  shows "render_endpoint D event modl options heap =
           normalize_response D event options response heap0"
  using assms
  by (auto simp: dispatched_def render_endpoint_def Let_def split: option.splits if_splits)

lemma truthy_prop_object:
  assumes "truthy (get_prop response k)"
  shows "typeof response = ''object'' \<and> response \<noteq> JNull"
  using assms by (cases response) simp_all

subsection \<open>Header lists and the heap\<close>

lemma filter_set_first_same:
  "filter (\<lambda>(k, w). k = n) (set_first n v h) = [(n, v)]"
  by (induction h) (auto simp: filter_empty_conv)

lemma filter_set_first_other:
  "m \<noteq> n \<Longrightarrow> filter (\<lambda>(k, w). k = m) (set_first n v h) = filter (\<lambda>(k, w). k = m) h"
proof (induction h)
  case Nil
  then show ?case by simp
next
  case (Cons p h)
  obtain k w where p: "p = (k, w)" by (cases p)
  have "filter (\<lambda>(k, w). k = m) (filter (\<lambda>(k', w'). k' \<noteq> n) h) = filter (\<lambda>(k, w). k = m) h"
    using Cons.prems by (induction h) auto
  with Cons p show ?case by auto
qed

lemma fst_filter_other:
  "insert n (fst ` set (filter (\<lambda>(k, w). k \<noteq> n) h)) = insert n (fst ` set h)"
  by (induction h) auto

lemma fst_set_first: "fst ` set (set_first n v h) = insert n (fst ` set h)"
proof (induction h)
  case Nil
  then show ?case by simp
next
  case (Cons p h)
  obtain k w where p: "p = (k, w)" by (cases p)
  show ?case
  proof (cases "k = n")
    case True
    then show ?thesis using p fst_filter_other [of n h] by simp
  next
    case False
    then show ?thesis using p Cons.IH by auto
  qed
qed

lemma headers_get_set_same: "headers_get (headers_set h name v) name = Some v"
  by (simp add: headers_get_def headers_set_def filter_set_first_same)

lemma headers_get_set_other:
  "to_lower_case m \<noteq> to_lower_case n \<Longrightarrow> headers_get (headers_set h n v) m = headers_get h m"
  by (simp add: headers_get_def headers_set_def filter_set_first_other)

lemma headers_has_set:
  "headers_has (headers_set h n v) m \<longleftrightarrow> to_lower_case m = to_lower_case n \<or> headers_has h m"
  by (auto simp: headers_has_def headers_set_def fst_set_first map_of_eq_None_iff)

lemma headers_has_get: "headers_has h n \<longleftrightarrow> headers_get h n \<noteq> None"
proof -
  have "filter (\<lambda>(k, v). k = to_lower_case n) h \<noteq> [] \<longleftrightarrow> to_lower_case n \<in> fst ` set h"
    by (force simp: filter_empty_conv)
  then show ?thesis
    by (auto simp: headers_has_def headers_get_def map_of_eq_None_iff split: list.splits)
qed

lemma heap_set_length [simp]: "length (heap_set heap a n v) = length heap"
  by (simp add: heap_set_def)

lemma heap_set_take: "n \<le> a \<Longrightarrow> take n (heap_set heap a name v) = take n heap"
  by (simp add: heap_set_def)

lemma heap_get_set_same:
  "a < length heap \<Longrightarrow> heap_get (heap_set heap a n v) a = headers_set (heap_get heap a) n v"
  by (simp add: heap_get_def heap_set_def)

lemma make_headers_fresh:
  assumes "make_headers D hs heap = (r, heap1)"
  shows "take (length heap) heap1 = heap"
    and "r = Inr headers \<Longrightarrow> headers = length heap \<and> length heap1 = Suc (length heap)"
  using assms
  by (auto simp: make_headers_def heap_new_def split: js_value.splits sum.splits)


lemma normalize_response_accepted:
  assumes "accepted D response heap0 headers heap1"
  shows "normalize_response D event options response heap0 =
           (case encode_body D options (headers_get (heap_get heap1 headers) ''content-type'')
                   (body_of response) heap1 headers of
              (Inl e, heap2) \<Rightarrow> (Inl e, heap2)
            | (Inr normalized_body, heap2) \<Rightarrow>
                (new_Response D
                   (if request_method (request event) \<noteq> ''HEAD'' \<and>
                       status_of response \<notin> set bodyless_status_codes
                    then normalized_body else JUndefined)
                   (status_of response)
                   (heap_get (add_etag D normalized_body heap2 headers) headers),
                 add_etag D normalized_body heap2 headers))"
  using assms
  by (auto simp: accepted_def normalize_response_def Let_def split: prod.splits sum.splits)

lemma encode_body_frame:
  assumes "encode_body D options type body heap1 headers = (r, heap2)"
  shows "length heap2 = length heap1" and "take headers heap2 = take headers heap1"
  using assms
  by (auto simp: encode_body_def Let_def heap_set_take split: sum.splits if_splits)

lemma add_etag_frame:
  "length (add_etag D nb heap headers) = length heap"
  "take headers (add_etag D nb heap headers) = take headers heap"
  by (auto simp: add_etag_def Let_def heap_set_take)

lemma normalize_response_frame:
  assumes "normalize_response D event options response heap0 = (outcome, heap')"
  shows "take (length heap0) heap' = heap0"
proof (cases "\<exists>headers heap1. accepted D response heap0 headers heap1")
  case True
  then obtain headers heap1 where a: "accepted D response heap0 headers heap1" by blast
  then have m: "make_headers D (get_prop response ''headers'') heap0 = (Inr headers, heap1)"
    by (simp add: accepted_def)
  have h: "headers = length heap0" and t1: "take (length heap0) heap1 = heap0"
    using make_headers_fresh [OF m] by simp_all
  obtain r heap2 where e: "encode_body D options
      (headers_get (heap_get heap1 headers) ''content-type'') (body_of response) heap1 headers = (r, heap2)"
    by (cases "encode_body D options
      (headers_get (heap_get heap1 headers) ''content-type'') (body_of response) heap1 headers")
  have t2: "take headers heap2 = heap0"
    using encode_body_frame(2) [OF e] h t1 by simp
  have n: "normalize_response D event options response heap0 =
             (case (r, heap2) of
                (Inl e, heap2) \<Rightarrow> (Inl e, heap2)
              | (Inr normalized_body, heap2) \<Rightarrow>
                  (new_Response D
                     (if request_method (request event) \<noteq> ''HEAD'' \<and>
                         status_of response \<notin> set bodyless_status_codes
                      then normalized_body else JUndefined)
                     (status_of response)
                     (heap_get (add_etag D normalized_body heap2 headers) headers),
                   add_etag D normalized_body heap2 headers))"
    by (simp only: normalize_response_accepted [OF a] e)
  show ?thesis
  proof (cases r)
    case (Inl x)
    then show ?thesis using assms n t2 h by simp
  next
    case (Inr nb)
    then show ?thesis using assms n t2 h add_etag_frame(2) [of headers D nb heap2] by simp
  qed
next
  case False
  obtain r heap1 where m: "make_headers D (get_prop response ''headers'') heap0 = (r, heap1)"
    by (cases "make_headers D (get_prop response ''headers'') heap0")
  have t1: "take (length heap0) heap1 = heap0"
    using make_headers_fresh(1) [OF m] .
  show ?thesis
    using assms False t1 m
    by (auto simp: normalize_response_def accepted_def Let_def split: if_splits sum.splits)
qed

lemma heap_get_heap_set:
  "heap_get (heap_set heap a n v) a =
     (if a < length heap then headers_set (heap_get heap a) n v else heap_get heap a)"
  by (simp add: heap_get_def heap_set_def)

lemma lower_etag: "to_lower_case ''etag'' = ''etag''"
  by (simp add: to_lower_case_def)

lemma lower_content_type: "to_lower_case ''content-type'' = ''content-type''"
  by (simp add: to_lower_case_def)

lemma lower_cache_control: "to_lower_case ''cache-control'' = ''cache-control''"
  by (simp add: to_lower_case_def)

lemma add_etag_get_other:
  assumes "to_lower_case m \<noteq> ''etag''"
  shows "headers_get (heap_get (add_etag D nb heap a) a) m = headers_get (heap_get heap a) m"
  using assms
  by (simp add: add_etag_def Let_def heap_get_heap_set headers_get_set_other lower_etag)

lemma encode_body_get_other:
  assumes "encode_body D options type body heap1 a = (r, heap2)"
    and "to_lower_case m \<noteq> ''content-type''"
  shows "headers_get (heap_get heap2 a) m = headers_get (heap_get heap1 a) m"
  using assms
  by (auto simp: encode_body_def Let_def heap_get_heap_set headers_get_set_other lower_content_type
           split: sum.splits if_splits)

lemma accepted_fresh:
  assumes "accepted D response heap0 headers heap1"
  shows "headers < length heap1"
proof -
  have "make_headers D (get_prop response ''headers'') heap0 = (Inr headers, heap1)"
    using assms by (simp add: accepted_def)
  from make_headers_fresh(2) [OF this refl] show ?thesis by simp
qed

lemma add_etag_cases:
  "add_etag D nb heap a =
     (if (typeof nb = ''string'' \<or> instanceof_Uint8Array nb) \<and>
         \<not> headers_has (heap_get heap a) ''etag'' \<and>
         (case headers_get (heap_get heap a) ''cache-control'' of
            None \<Rightarrow> True
          | Some cc \<Rightarrow> cc = [] \<or> \<not> (includes_str cc ''no-store'' \<or> includes_str cc ''immutable''))
      then heap_set heap a ''etag'' ([CHR 0x22] @ hash D nb @ [CHR 0x22])
      else heap)"
  by (auto simp: add_etag_def Let_def split: option.splits)

lemma defined_None: "\<not> defined x \<longleftrightarrow> x = None"
  by (cases x) simp_all

lemma for_in_keys_5: "for_in_keys [a, b, c, d, e] = [''0'', ''1'', ''2'', ''3'', ''4'']"
  by (simp add: for_in_keys_def upt_rec decimal.simps)

subsection \<open>The Response constructor\<close>

lemma error_value:
  "error D body =
     Inr (Response (JString body) (JNumber 500) [(''content-type'', ''text/plain;charset=UTF-8'')])"
  by (simp add: error_def new_Response_def response_body_def response_status_def body_type_def
        null_body_status_def headers_has_def)

lemma new_Response_no_body:
  assumes "200 \<le> n" and "n \<le> 599"
  shows "new_Response D JUndefined (JNumber n) hs = Inr (Response JUndefined (JNumber n) hs)"
  using assms by (simp add: new_Response_def response_body_def response_status_def)

lemma new_Response_string:
  assumes "200 \<le> n" and "n \<le> 599" and "n \<notin> set null_body_status"
  shows "new_Response D (JString s) (JNumber n) hs =
           Inr (Response (JString s) (JNumber n)
                  (if headers_has hs ''content-type'' then hs
                   else hs @ [(''content-type'', ''text/plain;charset=UTF-8'')]))"
  using assms by (simp add: new_Response_def response_body_def response_status_def body_type_def)

lemma new_Response_body:
  assumes "new_Response D body status hs = Inr res"
  shows "response_body D body = Inr (res_body res)"
  using assms
  by (auto simp: new_Response_def response_body_def split: sum.splits if_splits)

lemma new_Response_status:
  assumes "new_Response D body status hs = Inr res"
  shows "\<exists>s. response_status D status = Inr s \<and> res_status res = JNumber s \<and> 200 \<le> s \<and> s \<le> 599"
  using assms
  by (auto simp: new_Response_def split: sum.splits if_splits)


lemma new_Response_undefined:
  assumes "new_Response D JUndefined status hs = Inr res"
  shows "res_body res = JUndefined"
  using assms
  by (auto simp: new_Response_def split: sum.splits if_splits)

lemma new_Response_headers:
  assumes "new_Response D body status hs = Inr res"
  shows "res_headers res = hs \<or>
         (\<not> headers_has hs ''content-type'' \<and>
          res_headers res = hs @ [(''content-type'', ''text/plain;charset=UTF-8'')])"
  using assms
  by (auto simp: new_Response_def body_type_def split: sum.splits if_splits js_value.splits)

lemma headers_get_append_other:
  assumes "to_lower_case n \<noteq> k"
  shows "headers_get (hs @ [(k, v)]) n = headers_get hs n"
  using assms by (simp add: headers_get_def)

lemma new_Response_get_other:
  assumes "new_Response D body status hs = Inr res"
    and "to_lower_case n \<noteq> ''content-type''"
  shows "headers_get (res_headers res) n = headers_get hs n"
  using new_Response_headers [OF assms(1)] assms(2)
  by (auto simp: headers_get_append_other)

lemma new_Response_content_type:
  assumes "new_Response D body status hs = Inr res"
    and "headers_has hs ''content-type''"
  shows "res_headers res = hs"
  using new_Response_headers [OF assms(1)] assms(2) by auto


lemma new_Response_returns:
  assumes "200 \<le> n" and "n \<le> 599" and "response_body D nb = Inr b"
  shows "\<exists>res. new_Response D
                 (if keep \<and> JNumber n \<notin> set bodyless_status_codes then nb else JUndefined)
                 (JNumber n) hs = Inr res"
proof (cases "keep \<and> JNumber n \<notin> set bodyless_status_codes")
  case False
  then show ?thesis using new_Response_no_body [OF assms(1,2), of D hs] by auto
next
  case True
  then have "n \<notin> set null_body_status"
    using assms(1) by (auto simp: bodyless_status_codes_def null_body_status_def)
  then show ?thesis
    using True assms
    by (auto simp: new_Response_def response_status_def split: sum.splits)
qed

lemma normalize_response_not_object:
  assumes "typeof response \<noteq> ''object''"
  shows "normalize_response D event options response heap0 =
           (error D (''Invalid response from route '' @ pathname (url event) @
                     '': expected an object, got '' @ typeof response), heap0)"
  using assms by (simp add: normalize_response_def)

lemma normalize_response_rejected:
  assumes "typeof response = ''object''"
    and "\<not> (\<exists>headers heap1. accepted D response heap0 headers heap1)"
  shows "(\<exists>e heap'. normalize_response D event options response heap0 = (Inl e, heap')) \<or>
         (\<exists>heap'. normalize_response D event options response heap0 =
            (error D (''Invalid response from route '' @ pathname (url event) @
                      '': body must be an instance of string, Uint8Array or ReadableStream if content-type is not a supported textual content-type''),
             heap'))"
proof (cases "response = JNull \<or> truthy (get_prop response ''fallthrough'')")
  case True
  then show ?thesis using assms(1) by (auto simp: normalize_response_def)
next
  case False
  obtain r heap1 where m: "make_headers D (get_prop response ''headers'') heap0 = (r, heap1)"
    by (cases "make_headers D (get_prop response ''headers'') heap0")
  show ?thesis
  proof (cases r)
    case (Inl e)
    then show ?thesis using assms(1) False m by (simp add: normalize_response_def)
  next
    case (Inr headers)
    then have "\<not> accepted D response heap0 headers heap1" using assms(2) by blast
    then have "\<not> is_text (headers_get (heap_get heap1 headers) ''content-type'') \<and>
               \<not> (instanceof_Uint8Array (body_of response) \<or>
                  instanceof_ReadableStream (body_of response) \<or> is_string (body_of response))"
      using assms(1) False m Inr by (simp add: accepted_def)
    then have "normalize_response D event options response heap0 =
            (error D (''Invalid response from route '' @ pathname (url event) @
                      '': body must be an instance of string, Uint8Array or ReadableStream if content-type is not a supported textual content-type''),
             heap1)"
      using assms(1) False m Inr by (simp add: normalize_response_def)
    then show ?thesis by blast
  qed
qed

lemma normalize_response_head:
  assumes "request_method (request event) = ''HEAD''"
    and "normalize_response D event options response heap0 = (Inr res, heap')"
  shows "res_body res = JUndefined \<or>
         (\<exists>kind. Inr res = error D (''Invalid response from route '' @ pathname (url event) @
                                  '': expected an object, got '' @ kind)) \<or>
         Inr res = error D (''Invalid response from route '' @ pathname (url event) @
                          '': body must be an instance of string, Uint8Array or ReadableStream if content-type is not a supported textual content-type'')"
proof (cases "typeof response = ''object''")
  case False
  have "Inr res = error D (''Invalid response from route '' @ pathname (url event) @
                           '': expected an object, got '' @ typeof response)"
    using assms(2) by (simp only: normalize_response_not_object [OF False] prod.inject)
  then show ?thesis by blast
next
  case True
  show ?thesis
  proof (cases "\<exists>headers heap1. accepted D response heap0 headers heap1")
    case False
    from normalize_response_rejected [OF True False, of event options]
    show ?thesis using assms(2) by auto
  next
    case True
    then obtain headers heap1 where a: "accepted D response heap0 headers heap1" by blast
    obtain r heap2 where e: "encode_body D options
        (headers_get (heap_get heap1 headers) ''content-type'') (body_of response) heap1 headers =
        (r, heap2)"
      by (cases "encode_body D options
        (headers_get (heap_get heap1 headers) ''content-type'') (body_of response) heap1 headers")
    show ?thesis
    proof (cases r)
      case (Inl x)
      then show ?thesis
        using assms(2) by (simp add: normalize_response_accepted [OF a] e)
    next
      case (Inr nb)
      then have "new_Response D JUndefined (status_of response)
                   (heap_get (add_etag D nb heap2 headers) headers) = Inr res"
        using assms by (auto simp: normalize_response_accepted [OF a] e)
      from new_Response_undefined [OF this] show ?thesis by simp
    qed
  qed
qed

section \<open>Requests without a handler\<close>

text \<open>
  Claim C1, amended. When the module has no handler for the request's method (and, for
  HEAD, none for GET), \<open>render_endpoint\<close> answers, without touching the heap: 204 with no body
  if the request has a non-empty \<open>x-sveltekit-load\<close> header; otherwise 405 with the body
  \<open><METHOD> method not allowed\<close> and an \<open>allow\<close> header that is a comma-joined list,
  without duplicates, of names of entries of the module, followed by HEAD, last and once,
  if and only if the module has GET or HEAD. The only other header is the content-type the
  platform gives a response whose body is a string.
\<close>

theorem method_not_allowed:
  assumes "check_method_names D modl = None"
    and "\<not> defined (modl (request_method (request event)))"
    and "request_method (request event) = ''HEAD'' \<longrightarrow> \<not> defined (modl ''GET'')"
  shows "\<exists>allowed.
           render_endpoint D event modl options heap =
             (Inr (if truthy_str (headers_get (request_headers (request event)) ''x-sveltekit-load'')
                   then Response JUndefined (JNumber 204) []
                   else Response
                          (JString (request_method (request event) @ '' method not allowed''))
                          (JNumber 405)
                          [(''allow'',
                            join '', ''
                              (allowed @
                               (if defined (modl ''GET'') \<or> defined (modl ''HEAD'')
                                then [''HEAD''] else []))),
                           (''content-type'', ''text/plain;charset=UTF-8'')]),
              heap) \<and>
           distinct allowed \<and> ''HEAD'' \<notin> set allowed \<and> (\<forall>m \<in> set allowed. defined (modl m))"
proof -
  let ?allowed = "filter (\<lambda>method. defined (modl method))
                    (for_in_keys [''GET'', ''POST'', ''PUT'', ''PATCH'', ''DELETE''])"
  have n: "(if \<not> defined (modl (request_method (request event))) \<and>
               request_method (request event) = ''HEAD''
            then modl ''GET'' else modl (request_method (request event))) = None"
    using assms(2,3) by (auto simp: defined_None)
  have r: "render_endpoint D event modl options heap =
             (no_handler_response D event modl, heap)"
    using assms(1) n by (simp add: render_endpoint_def Let_def)
  have x: "distinct ?allowed \<and> ''HEAD'' \<notin> set ?allowed \<and> (\<forall>m \<in> set ?allowed. defined (modl m))"
    by (simp add: for_in_keys_5)
  have nh: "no_handler_response D event modl =
          Inr (if truthy_str (headers_get (request_headers (request event)) ''x-sveltekit-load'')
               then Response JUndefined (JNumber 204) []
               else Response
                      (JString (request_method (request event) @ '' method not allowed''))
                      (JNumber 405)
                      [(''allow'',
                        join '', ''
                          (?allowed @
                           (if defined (modl ''GET'') \<or> defined (modl ''HEAD'')
                            then [''HEAD''] else []))),
                       (''content-type'', ''text/plain;charset=UTF-8'')])"
    by (simp add: no_handler_response_def Let_def new_Response_no_body new_Response_string
          null_body_status_def headers_has_def lower_content_type)
  show ?thesis
  proof (intro exI conjI)
    show "render_endpoint D event modl options heap =
          (Inr (if truthy_str (headers_get (request_headers (request event)) ''x-sveltekit-load'')
                then Response JUndefined (JNumber 204) []
                else Response
                       (JString (request_method (request event) @ '' method not allowed''))
                       (JNumber 405)
                       [(''allow'',
                         join '', ''
                           (?allowed @
                            (if defined (modl ''GET'') \<or> defined (modl ''HEAD'')
                             then [''HEAD''] else []))),
                        (''content-type'', ''text/plain;charset=UTF-8'')]),
           heap)"
      by (simp only: r nh)
    show "distinct ?allowed" using x by blast
    show "''HEAD'' \<notin> set ?allowed" using x by blast
    show "\<forall>m \<in> set ?allowed. defined (modl m)" using x by blast
  qed
qed

theorem method_not_allowed_witness:
  "check_method_names sample_deps [''HEAD'' \<mapsto> returning (JObject [])] = None \<and>
   \<not> defined ([''HEAD'' \<mapsto> returning (JObject [])]
                 (request_method (request (sample_event ''DELETE'' [])))) \<and>
   render_endpoint sample_deps (sample_event ''DELETE'' [])
     [''HEAD'' \<mapsto> returning (JObject [])] sample_options [] =
     (Inr (Response (JString ''DELETE method not allowed'') (JNumber 405)
             [(''allow'', ''HEAD''), (''content-type'', ''text/plain;charset=UTF-8'')]),
      []) \<and>
   render_endpoint sample_deps (sample_event ''DELETE'' [(''x-sveltekit-load'', ''true'')])
     [''HEAD'' \<mapsto> returning (JObject [])] sample_options [] =
     (Inr (Response JUndefined (JNumber 204) []), []) \<and>
   request_method (request (sample_event ''HEAD'' [])) = ''HEAD'' \<and>
   \<not> defined ((Map.empty :: module) ''GET'') \<and>
   render_endpoint sample_deps (sample_event ''HEAD'' []) Map.empty sample_options [] =
     (Inr (Response (JString ''HEAD method not allowed'') (JNumber 405)
             [(''allow'', []), (''content-type'', ''text/plain;charset=UTF-8'')]), [])"
proof -
  let ?m = "[''HEAD'' \<mapsto> returning (JObject [])]"
  have c: "check_method_names sample_deps ?m = None"
    by (simp add: sample_deps_def)
  have n: "\<not> defined (?m (request_method (request (sample_event ''DELETE'' []))))"
    by (simp add: sample_event_def)
  have g: "request_method (request (sample_event ''DELETE'' [])) = ''HEAD'' \<longrightarrow>
           \<not> defined (?m ''GET'')"
    by (simp add: sample_event_def)
  have n': "\<not> defined (?m (request_method
              (request (sample_event ''DELETE'' [(''x-sveltekit-load'', ''true'')]))))"
    by (simp add: sample_event_def)
  have g': "request_method (request (sample_event ''DELETE'' [(''x-sveltekit-load'', ''true'')])) =
              ''HEAD'' \<longrightarrow> \<not> defined (?m ''GET'')"
    by (simp add: sample_event_def)
  have l: "truthy_str (headers_get (request_headers
             (request (sample_event ''DELETE'' [(''x-sveltekit-load'', ''true'')])))
             ''x-sveltekit-load'')"
    by (simp add: sample_event_def headers_get_def to_lower_case_def)
  have l': "\<not> truthy_str (headers_get (request_headers (request (sample_event ''DELETE'' [])))
             ''x-sveltekit-load'')"
    by (simp add: sample_event_def headers_get_def)
  have c0: "check_method_names sample_deps Map.empty = None"
    by (simp add: sample_deps_def)
  have n0: "\<not> defined ((Map.empty :: module) (request_method (request (sample_event ''HEAD'' []))))"
    by simp
  have g0: "request_method (request (sample_event ''HEAD'' [])) = ''HEAD'' \<longrightarrow>
            \<not> defined ((Map.empty :: module) ''GET'')"
    by simp
  show ?thesis
    using c n method_not_allowed [OF c n g, of sample_options "[]"]
      method_not_allowed [OF c n' g', of sample_options "[]"]
      method_not_allowed [OF c0 n0 g0, of sample_options "[]"]
    by (simp add: model_defs sample_defs)
qed

text \<open>
  The claim as first stated has HEAD in the list only when GET is present. Line 64 also adds
  it when HEAD is present: a module with a HEAD handler only answers a POST request with
  \<open>allow: HEAD\<close>, where the specified list is empty.
\<close>

theorem allow_header_counterexample:
  "\<not> defined ([''HEAD'' \<mapsto> returning (JObject [])] ''POST'') \<and>
   render_endpoint sample_deps (sample_event ''POST'' [])
     [''HEAD'' \<mapsto> returning (JObject [])] sample_options [] =
     (Inr (Response (JString ''POST method not allowed'') (JNumber 405)
             [(''allow'', ''HEAD''), (''content-type'', ''text/plain;charset=UTF-8'')]),
      []) \<and>
   join '', '' (specified_allowed [''HEAD'' \<mapsto> returning (JObject [])]) = []"
  by (simp add: model_defs sample_defs specified_allowed_def)

text \<open>
  The entries before HEAD come from the loop of line 60, which is a \<open>for ... in\<close> over
  the array of method names: it visits the indices \<open>0\<close> to \<open>4\<close>, not the names. A module
  with a POST handler only answers a GET request with an empty \<open>allow\<close> header, where the
  specified list is \<open>POST\<close>.
\<close>

lemma allow_header_for_in_loop:
  "render_endpoint sample_deps (sample_event ''GET'' [])
     [''POST'' \<mapsto> returning (JObject [])] sample_options [] =
     (Inr (Response (JString ''GET method not allowed'') (JNumber 405)
             [(''allow'', []), (''content-type'', ''text/plain;charset=UTF-8'')]), []) \<and>
   join '', '' (specified_allowed [''POST'' \<mapsto> returning (JObject [])]) = ''POST''"
  by (simp add: model_defs sample_defs specified_allowed_def)

section \<open>HEAD requests\<close>

text \<open>
  Claim C3, amended. For a HEAD request to a module without a HEAD handler and with a GET
  handler, \<open>render_endpoint\<close> calls the GET handler and treats what it returns as for any
  other handler. Every response it then returns has no body, whatever body the handler
  returned, unless it is one of the two diagnostic 500 responses (the result is not an
  object; the body is not allowed for a content-type that is not textual), which carry
  their text.
\<close>

theorem head_uses_get_handler:
  assumes "check_method_names D modl = None"
    and "request_method (request event) = ''HEAD''"
    and "modl ''HEAD'' = None"
    and "modl ''GET'' = Some g"
  shows "render_endpoint D event modl options heap =
           (case g event heap of
              (Inl e, heap0) \<Rightarrow> (Inl e, heap0)
            | (Inr response, heap0) \<Rightarrow> normalize_response D event options response heap0) \<and>
         (\<forall>res heap'.
            render_endpoint D event modl options heap = (Inr res, heap') \<longrightarrow>
            res_body res = JUndefined \<or>
            (\<exists>kind. Inr res = error D (''Invalid response from route '' @ pathname (url event) @
                                 '': expected an object, got '' @ kind)) \<or>
            Inr res = error D (''Invalid response from route '' @ pathname (url event) @
                         '': body must be an instance of string, Uint8Array or ReadableStream if content-type is not a supported textual content-type''))"
proof -
  have r: "render_endpoint D event modl options heap =
             (case g event heap of
                (Inl e, heap0) \<Rightarrow> (Inl e, heap0)
              | (Inr response, heap0) \<Rightarrow> normalize_response D event options response heap0)"
    using assms by (simp add: render_endpoint_def Let_def)
  have "res_body res = JUndefined \<or>
        (\<exists>kind. Inr res = error D (''Invalid response from route '' @ pathname (url event) @
                             '': expected an object, got '' @ kind)) \<or>
        Inr res = error D (''Invalid response from route '' @ pathname (url event) @
                     '': body must be an instance of string, Uint8Array or ReadableStream if content-type is not a supported textual content-type'')"
    if "render_endpoint D event modl options heap = (Inr res, heap')" for res heap'
  proof (cases "g event heap")
    case (Pair out heap0)
    show ?thesis
    proof (cases out)
      case (Inl e)
      then show ?thesis using that r Pair by simp
    next
      case (Inr response)
      then have "normalize_response D event options response heap0 = (Inr res, heap')"
        using that r Pair by simp
      from normalize_response_head [OF assms(2) this] show ?thesis .
    qed
  qed
  with r show ?thesis by blast
qed


theorem head_uses_get_handler_witness:
  "check_method_names sample_deps
     [''GET'' \<mapsto> returning (JObject [(''body'', JObject [(''a'', JNumber 1)])])] = None \<and>
   request_method (request (sample_event ''HEAD'' [])) = ''HEAD'' \<and>
   [''GET'' \<mapsto> returning (JObject [(''body'', JObject [(''a'', JNumber 1)])])] ''HEAD'' = None \<and>
   [''GET'' \<mapsto> returning (JObject [(''body'', JObject [(''a'', JNumber 1)])])] ''GET'' =
     Some (returning (JObject [(''body'', JObject [(''a'', JNumber 1)])])) \<and>
   render_endpoint sample_deps (sample_event ''HEAD'' [])
     [''GET'' \<mapsto> returning (JObject [(''body'', JObject [(''a'', JNumber 1)])])]
     sample_options [] =
     (Inr (Response JUndefined (JNumber 200)
             [(''content-type'', ''application/json; charset=utf-8''),
              (''etag'', [CHR 0x22] @ ''1446584013'' @ [CHR 0x22])]),
      [[(''content-type'', ''application/json; charset=utf-8''),
        (''etag'', [CHR 0x22] @ ''1446584013'' @ [CHR 0x22])]])"
proof -
  let ?g = "returning (JObject [(''body'', JObject [(''a'', JNumber 1)])])"
  have c: "check_method_names sample_deps [''GET'' \<mapsto> ?g] = None"
    by (simp add: sample_deps_def)
  have m: "request_method (request (sample_event ''HEAD'' [])) = ''HEAD''"
    by (simp add: sample_event_def)
  have h: "[''GET'' \<mapsto> ?g] ''HEAD'' = None" by simp
  have g: "[''GET'' \<mapsto> ?g] ''GET'' = Some ?g" by simp
  have n: "normalize_response sample_deps (sample_event ''HEAD'' []) sample_options
             (JObject [(''body'', JObject [(''a'', JNumber 1)])]) [] =
           (Inr (Response JUndefined (JNumber 200)
                   [(''content-type'', ''application/json; charset=utf-8''),
                    (''etag'', [CHR 0x22] @ ''1446584013'' @ [CHR 0x22])]),
            [[(''content-type'', ''application/json; charset=utf-8''),
              (''etag'', [CHR 0x22] @ ''1446584013'' @ [CHR 0x22])]])"
    by (simp add: model_defs sample_defs)
  have e: "?g (sample_event ''HEAD'' []) [] =
             (Inr (JObject [(''body'', JObject [(''a'', JNumber 1)])]), [])"
    by (simp add: returning_def)
  have r: "render_endpoint sample_deps (sample_event ''HEAD'' []) [''GET'' \<mapsto> ?g]
             sample_options [] =
           normalize_response sample_deps (sample_event ''HEAD'' []) sample_options
             (JObject [(''body'', JObject [(''a'', JNumber 1)])]) []"
    using conjunct1 [OF head_uses_get_handler [OF c m h g, of sample_options "[]"]]
    by (simp only: e prod.case sum.case)
  show ?thesis
    using c m h g by (simp only: r n simp_thms)
qed

text \<open>
  The claim as first stated gives every such response an absent body. A GET handler that
  returns the body \<open>{a: 1}\<close> with the content-type \<open>application/octet-stream\<close> gets,
  for a HEAD request, the diagnostic 500 response with its text as body.
\<close>

theorem head_body_counterexample:
  "[''GET'' \<mapsto> returning_with_headers [(''content-type'', ''application/octet-stream'')]
                [(''body'', JObject [(''a'', JNumber 1)])]] ''HEAD'' = None \<and>
   defined ([''GET'' \<mapsto> returning_with_headers [(''content-type'', ''application/octet-stream'')]
                        [(''body'', JObject [(''a'', JNumber 1)])]] ''GET'') \<and>
   render_endpoint sample_deps (sample_event ''HEAD'' [])
     [''GET'' \<mapsto> returning_with_headers [(''content-type'', ''application/octet-stream'')]
                  [(''body'', JObject [(''a'', JNumber 1)])]] sample_options [] =
     (Inr (Response
             (JString ''Invalid response from route /api: body must be an instance of string, Uint8Array or ReadableStream if content-type is not a supported textual content-type'')
             (JNumber 500) [(''content-type'', ''text/plain;charset=UTF-8'')]),
      [[(''content-type'', ''application/octet-stream'')],
       [(''content-type'', ''application/octet-stream'')]]) \<and>
   res_body (Response
             (JString ''Invalid response from route /api: body must be an instance of string, Uint8Array or ReadableStream if content-type is not a supported textual content-type'')
             (JNumber 500) [(''content-type'', ''text/plain;charset=UTF-8'')]) \<noteq> JUndefined"
  by (simp add: model_defs sample_defs)

section \<open>Results that are not objects, and the fallthrough marker\<close>

text \<open>
  When the handler returns a value whose \<open>typeof\<close> is not \<open>object\<close> (undefined, a boolean,
  a number, a string, a function), \<open>render_endpoint\<close> returns the 500 response whose body is
  \<open>Invalid response from route <pathname>: expected an object, got <typeof>\<close>, and nothing
  else happens: no header object is created, the heap is the one the handler left.
\<close>

lemma non_object_result:
  assumes "dispatched D event modl heap response heap0"
    and "typeof response \<noteq> ''object''"
  shows "render_endpoint D event modl options heap =
           (Inr (Response
                   (JString (''Invalid response from route '' @ pathname (url event) @
                             '': expected an object, got '' @ typeof response))
                   (JNumber 500) [(''content-type'', ''text/plain;charset=UTF-8'')]),
            heap0)"
  by (simp only: render_endpoint_dispatched [OF assms(1)]
        normalize_response_not_object [OF assms(2)] error_value)

text \<open>
  Claim C7. The test of line 85 is \<open>typeof response !== 'object'\<close>, and \<open>typeof null\<close> is
  \<open>object\<close>: a handler that returns \<open>null\<close>, which is no object, does not get the 500
  response. Line 91 reads \<open>response.fallthrough\<close> and throws a \<open>TypeError\<close>.
\<close>

theorem null_result_throws:
  "typeof JNull = ''object'' \<and>
   render_endpoint sample_deps (sample_event ''GET'' []) [''GET'' \<mapsto> returning JNull]
     sample_options [] =
     (Inl (TypeError ''Cannot read properties of null (reading fallthrough)''), [])"
  by (simp add: render_endpoint_def normalize_response_def sample_deps_def sample_event_def
        returning_def)

text \<open>
  Claim C8. When the value the handler returned has a truthy \<open>fallthrough\<close> property,
  \<open>render_endpoint\<close> throws the error saying that fallthrough is no longer supported: the
  outcome is the exception, not a response of any status.
\<close>

theorem fallthrough_is_fatal:
  assumes "dispatched D event modl heap response heap0"
    and "truthy (get_prop response ''fallthrough'')"
  shows "render_endpoint D event modl options heap =
           (Inl (Error (''fallthrough is no longer supported. Use matchers instead: '' @
                        ''https://kit.svelte.dev/docs/routing#advanced-routing-matching'')),
            heap0)"
  using assms(2) truthy_prop_object [OF assms(2)]
  by (simp add: render_endpoint_dispatched [OF assms(1)] normalize_response_def)

theorem fallthrough_is_fatal_witness:
  "dispatched sample_deps (sample_event ''GET'' [])
     [''GET'' \<mapsto> returning (JObject [(''fallthrough'', JBoolean True)])] []
     (JObject [(''fallthrough'', JBoolean True)]) [] \<and>
   truthy (get_prop (JObject [(''fallthrough'', JBoolean True)]) ''fallthrough'') \<and>
   (\<exists>msg. render_endpoint sample_deps (sample_event ''GET'' [])
            [''GET'' \<mapsto> returning (JObject [(''fallthrough'', JBoolean True)])]
            sample_options [] = (Inl (Error msg), []))"
proof -
  have d: "dispatched sample_deps (sample_event ''GET'' [])
             [''GET'' \<mapsto> returning (JObject [(''fallthrough'', JBoolean True)])] []
             (JObject [(''fallthrough'', JBoolean True)]) []"
    by (simp add: dispatched_def sample_defs)
  have t: "truthy (get_prop (JObject [(''fallthrough'', JBoolean True)]) ''fallthrough'')"
    by simp
  show ?thesis
    using d t fallthrough_is_fatal [OF d t, of sample_options] by simp
qed

section \<open>The check of the body against the content-type\<close>

text \<open>
  Claim C6. Let the handler return an object without a truthy \<open>fallthrough\<close>, and let
  \<open>type\<close> be the \<open>content-type\<close> of its headers. If \<open>is_text type\<close> is false and the body
  is not a \<open>Uint8Array\<close>, a \<open>ReadableStream\<close> or a string, the outcome is the 500 response
  whose text says that the body must be an instance of string, Uint8Array or
  ReadableStream. If \<open>is_text type\<close> holds, as it does for an absent content-type, the body
  is not checked: whatever it is, the response is constructed from it by lines 117 to 141.
\<close>

theorem body_type_check:
  assumes "dispatched D event modl heap response heap0"
    and "typeof response = ''object''" and "response \<noteq> JNull"
    and "\<not> truthy (get_prop response ''fallthrough'')"
    and "make_headers D (get_prop response ''headers'') heap0 = (Inr headers, heap1)"
    and "type = headers_get (heap_get heap1 headers) ''content-type''"
  shows "(\<not> is_text type \<and>
          \<not> (instanceof_Uint8Array (body_of response) \<or>
             instanceof_ReadableStream (body_of response) \<or> is_string (body_of response)) \<longrightarrow>
            render_endpoint D event modl options heap =
              (Inr (Response
                      (JString (''Invalid response from route '' @ pathname (url event) @
                         '': body must be an instance of string, Uint8Array or ReadableStream if content-type is not a supported textual content-type''))
                      (JNumber 500) [(''content-type'', ''text/plain;charset=UTF-8'')]),
               heap1)) \<and>
         (is_text type \<longrightarrow>
            render_endpoint D event modl options heap =
              (case encode_body D options type (body_of response) heap1 headers of
                 (Inl e, heap2) \<Rightarrow> (Inl e, heap2)
               | (Inr normalized_body, heap2) \<Rightarrow>
                   (new_Response D
                      (if request_method (request event) \<noteq> ''HEAD'' \<and>
                          status_of response \<notin> set bodyless_status_codes
                       then normalized_body else JUndefined)
                      (status_of response)
                      (heap_get (add_etag D normalized_body heap2 headers) headers),
                    add_etag D normalized_body heap2 headers))) \<and>
         is_text None"
proof (intro conjI impI)
  assume "\<not> is_text type \<and>
          \<not> (instanceof_Uint8Array (body_of response) \<or>
             instanceof_ReadableStream (body_of response) \<or> is_string (body_of response))"
  then show "render_endpoint D event modl options heap =
              (Inr (Response
                      (JString (''Invalid response from route '' @ pathname (url event) @
                         '': body must be an instance of string, Uint8Array or ReadableStream if content-type is not a supported textual content-type''))
                      (JNumber 500) [(''content-type'', ''text/plain;charset=UTF-8'')]),
               heap1)"
    using assms(2-6)
    by (simp add: render_endpoint_dispatched [OF assms(1)] normalize_response_def error_value)
next
  assume "is_text type"
  then have "accepted D response heap0 headers heap1"
    using assms(2-6) by (simp add: accepted_def)
  then show "render_endpoint D event modl options heap =
              (case encode_body D options type (body_of response) heap1 headers of
                 (Inl e, heap2) \<Rightarrow> (Inl e, heap2)
               | (Inr normalized_body, heap2) \<Rightarrow>
                   (new_Response D
                      (if request_method (request event) \<noteq> ''HEAD'' \<and>
                          status_of response \<notin> set bodyless_status_codes
                       then normalized_body else JUndefined)
                      (status_of response)
                      (heap_get (add_etag D normalized_body heap2 headers) headers),
                    add_etag D normalized_body heap2 headers))"
    using assms(6)
    by (simp add: render_endpoint_dispatched [OF assms(1)] normalize_response_accepted)
next
  show "is_text None" by (simp add: is_text_def)
qed

theorem body_type_check_witness:
  "dispatched sample_deps (sample_event ''GET'' [])
     [''GET'' \<mapsto> returning_with_headers [(''content-type'', ''application/octet-stream'')]
                  [(''body'', JObject [(''a'', JNumber 1)])]] []
     (JObject [(''headers'', JHeaders 0), (''body'', JObject [(''a'', JNumber 1)])])
     [[(''content-type'', ''application/octet-stream'')]] \<and>
   make_headers sample_deps
     (get_prop (JObject [(''headers'', JHeaders 0), (''body'', JObject [(''a'', JNumber 1)])])
        ''headers'')
     [[(''content-type'', ''application/octet-stream'')]] =
     (Inr 1, [[(''content-type'', ''application/octet-stream'')],
              [(''content-type'', ''application/octet-stream'')]]) \<and>
   \<not> is_text (Some ''application/octet-stream'') \<and>
   render_endpoint sample_deps (sample_event ''GET'' [])
     [''GET'' \<mapsto> returning_with_headers [(''content-type'', ''application/octet-stream'')]
                  [(''body'', JObject [(''a'', JNumber 1)])]] sample_options [] =
     (Inr (Response
             (JString ''Invalid response from route /api: body must be an instance of string, Uint8Array or ReadableStream if content-type is not a supported textual content-type'')
             (JNumber 500) [(''content-type'', ''text/plain;charset=UTF-8'')]),
      [[(''content-type'', ''application/octet-stream'')],
       [(''content-type'', ''application/octet-stream'')]]) \<and>
   is_text (Some ''text/plain'') \<and>
   render_endpoint sample_deps (sample_event ''GET'' [])
     [''GET'' \<mapsto> returning_with_headers [(''content-type'', ''text/plain'')]
                  [(''body'', JObject [(''a'', JNumber 1)])]] sample_options [] =
     (Inr (Response (JString ''[object Object]'') (JNumber 200) [(''content-type'', ''text/plain'')]),
      [[(''content-type'', ''text/plain'')], [(''content-type'', ''text/plain'')]])"
proof -
  let ?m = "[''GET'' \<mapsto> returning_with_headers [(''content-type'', ''application/octet-stream'')]
                  [(''body'', JObject [(''a'', JNumber 1)])]]"
  let ?r = "JObject [(''headers'', JHeaders 0), (''body'', JObject [(''a'', JNumber 1)])]"
  let ?h0 = "[[(''content-type'', ''application/octet-stream'')]]"
  let ?h1 = "[[(''content-type'', ''application/octet-stream'')],
              [(''content-type'', ''application/octet-stream'')]]"
  have d: "dispatched sample_deps (sample_event ''GET'' []) ?m [] ?r ?h0"
    by (simp add: dispatched_def sample_defs)
  have t: "typeof ?r = ''object''" and n: "?r \<noteq> JNull"
    and f: "\<not> truthy (get_prop ?r ''fallthrough'')"
    by simp_all
  have m: "make_headers sample_deps (get_prop ?r ''headers'') ?h0 = (Inr 1, ?h1)"
    by (simp add: make_headers_def heap_new_def heap_get_def)
  have c: "Some ''application/octet-stream'' = headers_get (heap_get ?h1 1) ''content-type''"
    by (simp add: headers_get_def heap_get_def to_lower_case_def)
  have x: "\<not> is_text (Some ''application/octet-stream'')"
    by (simp add: is_text_def to_lower_case_def text_types_def suffix_to_prefix)
  let ?m' = "[''GET'' \<mapsto> returning_with_headers [(''content-type'', ''text/plain'')]
                  [(''body'', JObject [(''a'', JNumber 1)])]]"
  let ?k0 = "[[(''content-type'', ''text/plain'')]]"
  let ?k1 = "[[(''content-type'', ''text/plain'')], [(''content-type'', ''text/plain'')]]"
  have d': "dispatched sample_deps (sample_event ''GET'' []) ?m' [] ?r ?k0"
    by (simp add: dispatched_def sample_defs)
  have m': "make_headers sample_deps (get_prop ?r ''headers'') ?k0 = (Inr 1, ?k1)"
    by (simp add: make_headers_def heap_new_def heap_get_def)
  have c': "Some ''text/plain'' = headers_get (heap_get ?k1 1) ''content-type''"
    by (simp add: headers_get_def heap_get_def to_lower_case_def)
  have x': "is_text (Some ''text/plain'')"
    by (simp add: is_text_def to_lower_case_def)
  have first: "render_endpoint sample_deps (sample_event ''GET'' []) ?m sample_options [] =
     (Inr (Response
             (JString ''Invalid response from route /api: body must be an instance of string, Uint8Array or ReadableStream if content-type is not a supported textual content-type'')
             (JNumber 500) [(''content-type'', ''text/plain;charset=UTF-8'')]), ?h1)"
    using x body_type_check [OF d t n f m c, of sample_options]
    by (simp add: is_string_def sample_event_def)
  have second: "render_endpoint sample_deps (sample_event ''GET'' []) ?m' sample_options [] =
     (Inr (Response (JString ''[object Object]'') (JNumber 200) [(''content-type'', ''text/plain'')]),
      ?k1)"
    using x' body_type_check [OF d' t n f m' c', of sample_options]
    by (simp add: model_defs sample_defs)
  show ?thesis
    using d m x x' first second by simp
qed

section \<open>Responses without a body\<close>




section \<open>The encoding of the body\<close>

text \<open>
  Claim C4, amended. Let the handler's result pass the checks of lines 85 to 112, the body
  check against the content-type among them. If \<open>is_pojo\<close> holds of the body and the
  content-type is absent, empty or starts with \<open>application/json\<close>, then the content-type
  is set to \<open>application/json; charset=utf-8\<close> and the encoded body is what
  \<open>JSON.stringify\<close> returns for the body, or what \<open>serialize_error\<close> returns when the
  body is an \<open>Error\<close>. For every other body the encoded body is the handler's body,
  unchanged. The response is constructed from the encoded body, left out when the method
  is HEAD or the status is 101, 204, 205 or 304, and a response that is returned carries it
  as the \<open>Response\<close> constructor takes it.
\<close>

theorem body_encoding:
  assumes "dispatched D event modl heap response heap0"
    and "accepted D response heap0 headers heap1"
    and "type = headers_get (heap_get heap1 headers) ''content-type''"
    and "is_pojo D (body_of response) = Inr pojo"
    and "suppressed =
           (request_method (request event) = ''HEAD'' \<or>
            status_of response \<in> {JNumber 101, JNumber 204, JNumber 205, JNumber 304})"
  shows "(pojo \<and> (case type of None \<Rightarrow> True | Some t \<Rightarrow> t = [] \<or> prefix ''application/json'' t) \<longrightarrow>
            (\<forall>encoded.
               (if instanceof_Error (body_of response)
                then serialize_error D (body_of response) (get_stack options)
                else JSON_stringify D (body_of response)) = Inr encoded \<longrightarrow>
               (\<exists>hs heap3.
                  render_endpoint D event modl options heap =
                    (new_Response D (if suppressed then JUndefined else encoded)
                       (status_of response) hs, heap3) \<and>
                  headers_get hs ''content-type'' = Some ''application/json; charset=utf-8'' \<and>
                  (\<forall>res. new_Response D (if suppressed then JUndefined else encoded)
                            (status_of response) hs = Inr res \<longrightarrow>
                         headers_get (res_headers res) ''content-type'' =
                           Some ''application/json; charset=utf-8'' \<and>
                         response_body D (if suppressed then JUndefined else encoded) =
                           Inr (res_body res))))) \<and>
         (\<not> (pojo \<and> (case type of None \<Rightarrow> True | Some t \<Rightarrow> t = [] \<or> prefix ''application/json'' t)) \<longrightarrow>
            (\<exists>hs heap3.
               render_endpoint D event modl options heap =
                 (new_Response D (if suppressed then JUndefined else body_of response)
                    (status_of response) hs, heap3) \<and>
               (\<forall>res. new_Response D (if suppressed then JUndefined else body_of response)
                         (status_of response) hs = Inr res \<longrightarrow>
                      response_body D (if suppressed then JUndefined else body_of response) =
                        Inr (res_body res))))"
proof (intro conjI impI allI)
  fix encoded
  assume j: "pojo \<and> (case type of None \<Rightarrow> True | Some t \<Rightarrow> t = [] \<or> prefix ''application/json'' t)"
    and s: "(if instanceof_Error (body_of response)
             then serialize_error D (body_of response) (get_stack options)
             else JSON_stringify D (body_of response)) = Inr encoded"
  let ?heap2 = "heap_set heap1 headers ''content-type'' ''application/json; charset=utf-8''"
  let ?hs = "heap_get (add_etag D encoded ?heap2 headers) headers"
  let ?body = "if suppressed then JUndefined else encoded"
  have e: "encode_body D options (headers_get (heap_get heap1 headers) ''content-type'')
             (body_of response) heap1 headers = (Inr encoded, ?heap2)"
    using j s assms(3,4) by (simp add: encode_body_def)
  have r: "render_endpoint D event modl options heap =
             (new_Response D ?body (status_of response) ?hs, add_etag D encoded ?heap2 headers)"
    using assms(5)
    by (simp add: render_endpoint_dispatched [OF assms(1)] normalize_response_accepted [OF assms(2)]
          e bodyless_status_codes_def)
  have "headers_get ?hs ''content-type'' = headers_get (heap_get ?heap2 headers) ''content-type''"
    by (rule add_etag_get_other) (simp add: lower_content_type)
  also have "\<dots> = Some ''application/json; charset=utf-8''"
    using accepted_fresh [OF assms(2)] by (simp add: heap_get_heap_set headers_get_set_same)
  finally have c: "headers_get ?hs ''content-type'' = Some ''application/json; charset=utf-8''" .
  have "headers_get (res_headers res) ''content-type'' = Some ''application/json; charset=utf-8'' \<and>
        response_body D ?body = Inr (res_body res)"
    if n: "new_Response D ?body (status_of response) ?hs = Inr res" for res
  proof -
    have "headers_has ?hs ''content-type''" using c by (simp add: headers_has_get)
    from new_Response_content_type [OF n this] new_Response_body [OF n] c show ?thesis by simp
  qed
  with r c show "\<exists>hs heap3.
                  render_endpoint D event modl options heap =
                    (new_Response D (if suppressed then JUndefined else encoded)
                       (status_of response) hs, heap3) \<and>
                  headers_get hs ''content-type'' = Some ''application/json; charset=utf-8'' \<and>
                  (\<forall>res. new_Response D (if suppressed then JUndefined else encoded)
                            (status_of response) hs = Inr res \<longrightarrow>
                         headers_get (res_headers res) ''content-type'' =
                           Some ''application/json; charset=utf-8'' \<and>
                         response_body D (if suppressed then JUndefined else encoded) =
                           Inr (res_body res))"
    by blast
next
  assume j: "\<not> (pojo \<and> (case type of None \<Rightarrow> True | Some t \<Rightarrow> t = [] \<or> prefix ''application/json'' t))"
  let ?hs = "heap_get (add_etag D (body_of response) heap1 headers) headers"
  let ?body = "if suppressed then JUndefined else body_of response"
  have e: "encode_body D options (headers_get (heap_get heap1 headers) ''content-type'')
             (body_of response) heap1 headers = (Inr (body_of response), heap1)"
    using j assms(4) unfolding assms(3) encode_body_def by auto
  have r: "render_endpoint D event modl options heap =
             (new_Response D ?body (status_of response) ?hs,
              add_etag D (body_of response) heap1 headers)"
    using assms(5)
    by (simp add: render_endpoint_dispatched [OF assms(1)] normalize_response_accepted [OF assms(2)]
          e bodyless_status_codes_def)
  have "response_body D ?body = Inr (res_body res)"
    if n: "new_Response D ?body (status_of response) ?hs = Inr res" for res
    using new_Response_body [OF n] .
  with r show "\<exists>hs heap3.
               render_endpoint D event modl options heap =
                 (new_Response D (if suppressed then JUndefined else body_of response)
                    (status_of response) hs, heap3) \<and>
               (\<forall>res. new_Response D (if suppressed then JUndefined else body_of response)
                         (status_of response) hs = Inr res \<longrightarrow>
                      response_body D (if suppressed then JUndefined else body_of response) =
                        Inr (res_body res))"
    by blast
qed

theorem body_encoding_witness:
  "dispatched sample_deps (sample_event ''GET'' [])
     [''GET'' \<mapsto> returning (JObject [(''body'', JObject [(''a'', JNumber 1)])])] []
     (JObject [(''body'', JObject [(''a'', JNumber 1)])]) [] \<and>
   accepted sample_deps (JObject [(''body'', JObject [(''a'', JNumber 1)])]) [] 0 [[]] \<and>
   is_pojo sample_deps (body_of (JObject [(''body'', JObject [(''a'', JNumber 1)])])) = Inr True \<and>
   (\<exists>hs heap3.
      render_endpoint sample_deps (sample_event ''GET'' [])
        [''GET'' \<mapsto> returning (JObject [(''body'', JObject [(''a'', JNumber 1)])])]
        sample_options [] =
        (Inr (Response (JString (''{'' @ [CHR 0x22] @ ''a'' @ [CHR 0x22] @ '':1}'')) (JNumber 200) hs),
         heap3) \<and>
      headers_get hs ''content-type'' = Some ''application/json; charset=utf-8'') \<and>
   is_pojo sample_deps (body_of (JObject [(''body'', JString ''hello'')])) = Inr False \<and>
   (\<exists>hs heap3.
      render_endpoint sample_deps (sample_event ''GET'' [])
        [''GET'' \<mapsto> returning (JObject [(''body'', JString ''hello'')])] sample_options [] =
        (Inr (Response (JString ''hello'') (JNumber 200) hs), heap3))"
proof -
  let ?r = "JObject [(''body'', JObject [(''a'', JNumber 1)])]"
  let ?nb = "JString (''{'' @ [CHR 0x22] @ ''a'' @ [CHR 0x22] @ '':1}'')"
  have d: "dispatched sample_deps (sample_event ''GET'' []) [''GET'' \<mapsto> returning ?r] [] ?r []"
    by (simp add: dispatched_def sample_defs)
  have a: "accepted sample_deps ?r [] 0 [[]]"
    by (simp add: model_defs sample_defs)
  have t: "None = headers_get (heap_get [[]] 0) ''content-type''"
    by (simp add: headers_get_def heap_get_def)
  have p: "is_pojo sample_deps (body_of ?r) = Inr True"
    by (simp add: sample_defs)
  have s: "False = (request_method (request (sample_event ''GET'' [])) = ''HEAD'' \<or>
                    status_of ?r \<in> {JNumber 101, JNumber 204, JNumber 205, JNumber 304})"
    by (simp add: sample_event_def)
  have j: "JSON_stringify sample_deps (body_of ?r) = Inr ?nb"
    by (simp add: model_defs sample_defs)
  have first: "\<exists>hs heap3.
      render_endpoint sample_deps (sample_event ''GET'' []) [''GET'' \<mapsto> returning ?r]
        sample_options [] = (Inr (Response ?nb (JNumber 200) hs), heap3) \<and>
      headers_get hs ''content-type'' = Some ''application/json; charset=utf-8''"
  proof -
    have "render_endpoint sample_deps (sample_event ''GET'' []) [''GET'' \<mapsto> returning ?r]
            sample_options [] =
          (Inr (Response ?nb (JNumber 200)
                  [(''content-type'', ''application/json; charset=utf-8''),
                   (''etag'', [CHR 0x22] @ ''1446584013'' @ [CHR 0x22])]),
           [[(''content-type'', ''application/json; charset=utf-8''),
             (''etag'', [CHR 0x22] @ ''1446584013'' @ [CHR 0x22])]])"
      by (simp add: model_defs sample_defs)
    moreover have "headers_get [(''content-type'', ''application/json; charset=utf-8''),
                                (''etag'', [CHR 0x22] @ ''1446584013'' @ [CHR 0x22])]
                     ''content-type'' = Some ''application/json; charset=utf-8''"
      by (simp add: headers_get_def to_lower_case_def)
    ultimately show ?thesis
      using body_encoding [OF d a t p s, of sample_options] by blast
  qed
  let ?r' = "JObject [(''body'', JString ''hello'')]"
  have d': "dispatched sample_deps (sample_event ''GET'' []) [''GET'' \<mapsto> returning ?r'] [] ?r' []"
    by (simp add: dispatched_def sample_defs)
  have a': "accepted sample_deps ?r' [] 0 [[]]"
    by (simp add: model_defs sample_defs)
  have p': "is_pojo sample_deps (body_of ?r') = Inr False"
    by (simp add: sample_defs)
  have s': "False = (request_method (request (sample_event ''GET'' [])) = ''HEAD'' \<or>
                     status_of ?r' \<in> {JNumber 101, JNumber 204, JNumber 205, JNumber 304})"
    by (simp add: sample_event_def)
  have second: "\<exists>hs heap3.
      render_endpoint sample_deps (sample_event ''GET'' []) [''GET'' \<mapsto> returning ?r']
        sample_options [] = (Inr (Response (JString ''hello'') (JNumber 200) hs), heap3)"
  proof -
    have "render_endpoint sample_deps (sample_event ''GET'' []) [''GET'' \<mapsto> returning ?r']
            sample_options [] =
          (Inr (Response (JString ''hello'') (JNumber 200)
                  [(''etag'', [CHR 0x22] @ ''261238937'' @ [CHR 0x22]),
                   (''content-type'', ''text/plain;charset=UTF-8'')]),
           [[(''etag'', [CHR 0x22] @ ''261238937'' @ [CHR 0x22])]])"
      by (simp add: model_defs sample_defs)
    then show ?thesis
      using body_encoding [OF d' a' t p' s', of sample_options] by blast
  qed
  show ?thesis
    using d a p p' first second by simp
qed

text \<open>
  The claim as first stated fails: a body \<open>{a: 1}\<close> with the content-type
  \<open>application/jsonl\<close>, which starts with \<open>application/json\<close>, is not textual for
  \<open>is_text\<close>, and the check of lines 105 to 112 answers 500 before the encoding.
\<close>

theorem json_prefix_counterexample:
  "is_pojo sample_deps (JObject [(''a'', JNumber 1)]) = Inr True \<and>
   prefix ''application/json'' ''application/jsonl'' \<and>
   render_endpoint sample_deps (sample_event ''GET'' [])
     [''GET'' \<mapsto> returning_with_headers [(''content-type'', ''application/jsonl'')]
                  [(''body'', JObject [(''a'', JNumber 1)])]] sample_options [] =
     (Inr (Response
             (JString ''Invalid response from route /api: body must be an instance of string, Uint8Array or ReadableStream if content-type is not a supported textual content-type'')
             (JNumber 500) [(''content-type'', ''text/plain;charset=UTF-8'')]),
      [[(''content-type'', ''application/jsonl'')], [(''content-type'', ''application/jsonl'')]])"
  by (simp add: model_defs sample_defs)

section \<open>The etag header\<close>

text \<open>
  Claim C5. In the headers of the normalized response, which are those line 135 hands to
  the \<open>Response\<close> constructor, with \<open>h\<close> the headers of the handler's result: an
  \<open>etag\<close> is added if and only if the encoded body is a string or a \<open>Uint8Array\<close>, \<open>h\<close>
  has no \<open>etag\<close>, and the \<open>cache-control\<close> of \<open>h\<close> is absent, empty or contains neither
  \<open>no-store\<close> nor \<open>immutable\<close>. The added value is the hash of the encoded body between
  double quotes; otherwise the \<open>etag\<close> is the handler's, if any. In particular a
  \<open>cache-control\<close> containing \<open>no-store\<close> leaves the \<open>etag\<close> as the handler gave it.
\<close>

theorem etag_injection:
  assumes "dispatched D event modl heap response heap0"
    and "accepted D response heap0 headers heap1"
    and "encode_body D options (headers_get (heap_get heap1 headers) ''content-type'')
           (body_of response) heap1 headers = (Inr normalized_body, heap2)"
    and "h = heap_get heap1 headers"
    and "added =
           ((typeof normalized_body = ''string'' \<or> instanceof_Uint8Array normalized_body) \<and>
            \<not> headers_has h ''etag'' \<and>
            (case headers_get h ''cache-control'' of
               None \<Rightarrow> True
             | Some cc \<Rightarrow> cc = [] \<or> \<not> (includes_str cc ''no-store'' \<or> includes_str cc ''immutable'')))"
  shows "\<exists>body hs heap3.
           render_endpoint D event modl options heap =
             (new_Response D body (status_of response) hs, heap3) \<and>
           headers_get hs ''etag'' =
             (if added then Some ([CHR 0x22] @ hash D normalized_body @ [CHR 0x22])
              else headers_get h ''etag'') \<and>
           ((headers_has hs ''etag'' \<and> \<not> headers_has h ''etag'') = added) \<and>
           (\<forall>cc. headers_get h ''cache-control'' = Some cc \<and> includes_str cc ''no-store'' \<longrightarrow>
                 headers_get hs ''etag'' = headers_get h ''etag'') \<and>
           (\<forall>res. new_Response D body (status_of response) hs = Inr res \<longrightarrow>
                  headers_get (res_headers res) ''etag'' = headers_get hs ''etag'' \<and>
                  headers_has (res_headers res) ''etag'' = headers_has hs ''etag'') \<and>
           (\<forall>n b. status_of response = JNumber n \<and> 200 \<le> n \<and> n \<le> 599 \<and>
                  response_body D normalized_body = Inr b \<longrightarrow>
                  (\<exists>res. new_Response D body (status_of response) hs = Inr res))"
proof -
  let ?body = "if request_method (request event) \<noteq> ''HEAD'' \<and>
                  status_of response \<notin> set bodyless_status_codes
               then normalized_body else JUndefined"
  let ?h2 = "heap_get heap2 headers"
  let ?hs = "heap_get (add_etag D normalized_body heap2 headers) headers"
  have r: "render_endpoint D event modl options heap =
             (new_Response D ?body (status_of response) ?hs,
              add_etag D normalized_body heap2 headers)"
    by (simp add: render_endpoint_dispatched [OF assms(1)] normalize_response_accepted [OF assms(2)]
          assms(3))
  have ge: "headers_get ?h2 ''etag'' = headers_get h ''etag''"
    unfolding assms(4) by (rule encode_body_get_other [OF assms(3)]) (simp add: lower_etag)
  have gc: "headers_get ?h2 ''cache-control'' = headers_get h ''cache-control''"
    unfolding assms(4) by (rule encode_body_get_other [OF assms(3)]) (simp add: lower_cache_control)
  have he: "headers_has ?h2 ''etag'' = headers_has h ''etag''"
    by (simp add: headers_has_get ge)
  have len: "headers < length heap2"
    using accepted_fresh [OF assms(2)] encode_body_frame(1) [OF assms(3)] by simp
  have ae: "add_etag D normalized_body heap2 headers =
              (if added
               then heap_set heap2 headers ''etag'' ([CHR 0x22] @ hash D normalized_body @ [CHR 0x22])
               else heap2)"
    by (simp only: add_etag_cases he gc assms(5))
  have v: "headers_get ?hs ''etag'' =
             (if added then Some ([CHR 0x22] @ hash D normalized_body @ [CHR 0x22])
              else headers_get h ''etag'')"
    using len by (simp add: ae heap_get_heap_set headers_get_set_same ge)
  have i: "(headers_has ?hs ''etag'' \<and> \<not> headers_has h ''etag'') = added"
  proof (cases added)
    case True
    then have "\<not> headers_has h ''etag''" using assms(5) by simp
    then show ?thesis using True v by (simp add: headers_has_get)
  next
    case False
    then show ?thesis using v by (auto simp: headers_has_get)
  qed
  have n: "headers_get ?hs ''etag'' = headers_get h ''etag''"
    if "headers_get h ''cache-control'' = Some cc \<and> includes_str cc ''no-store''" for cc
  proof -
    have "cc \<noteq> []" using that by (cases cc) auto
    then have "\<not> added" using that assms(5) by simp
    then show ?thesis using v by simp
  qed
  have c: "headers_get (res_headers res) ''etag'' = headers_get ?hs ''etag'' \<and>
           headers_has (res_headers res) ''etag'' = headers_has ?hs ''etag''"
    if "new_Response D ?body (status_of response) ?hs = Inr res" for res
    using new_Response_get_other [OF that, of "''etag''"]
    by (simp add: headers_has_get lower_etag)
  have x: "\<exists>res. new_Response D ?body (status_of response) ?hs = Inr res"
    if "status_of response = JNumber n \<and> 200 \<le> n \<and> n \<le> 599 \<and>
        response_body D normalized_body = Inr b" for n b
  proof -
    from that have s: "status_of response = JNumber n" and l: "200 \<le> n" and u: "n \<le> 599"
      and b: "response_body D normalized_body = Inr b"
      by simp_all
    from new_Response_returns [OF l u b, of "request_method (request event) \<noteq> ''HEAD''" ?hs]
    show ?thesis by (simp add: s)
  qed
  show ?thesis
  proof (intro exI conjI)
    show "render_endpoint D event modl options heap =
            (new_Response D ?body (status_of response) ?hs,
             add_etag D normalized_body heap2 headers)"
      by (fact r)
    show "headers_get ?hs ''etag'' =
            (if added then Some ([CHR 0x22] @ hash D normalized_body @ [CHR 0x22])
             else headers_get h ''etag'')"
      by (fact v)
    show "(headers_has ?hs ''etag'' \<and> \<not> headers_has h ''etag'') = added"
      by (fact i)
    show "\<forall>cc. headers_get h ''cache-control'' = Some cc \<and> includes_str cc ''no-store'' \<longrightarrow>
               headers_get ?hs ''etag'' = headers_get h ''etag''"
      using n by blast
    show "\<forall>res. new_Response D ?body (status_of response) ?hs = Inr res \<longrightarrow>
                headers_get (res_headers res) ''etag'' = headers_get ?hs ''etag'' \<and>
                headers_has (res_headers res) ''etag'' = headers_has ?hs ''etag''"
      using c by blast
    show "\<forall>n b. status_of response = JNumber n \<and> 200 \<le> n \<and> n \<le> 599 \<and>
                response_body D normalized_body = Inr b \<longrightarrow>
                (\<exists>res. new_Response D ?body (status_of response) ?hs = Inr res)"
      using x by blast
  qed
qed


theorem etag_injection_witness:
  "dispatched sample_deps (sample_event ''GET'' [])
     [''GET'' \<mapsto> returning (JObject [(''body'', JObject [(''a'', JNumber 1)])])] []
     (JObject [(''body'', JObject [(''a'', JNumber 1)])]) [] \<and>
   accepted sample_deps (JObject [(''body'', JObject [(''a'', JNumber 1)])]) [] 0 [[]] \<and>
   encode_body sample_deps sample_options (headers_get (heap_get [[]] 0) ''content-type'')
     (body_of (JObject [(''body'', JObject [(''a'', JNumber 1)])])) [[]] 0 =
     (Inr (JString (''{'' @ [CHR 0x22] @ ''a'' @ [CHR 0x22] @ '':1}'')),
      [[(''content-type'', ''application/json; charset=utf-8'')]]) \<and>
   (\<exists>body hs heap3.
      render_endpoint sample_deps (sample_event ''GET'' [])
        [''GET'' \<mapsto> returning (JObject [(''body'', JObject [(''a'', JNumber 1)])])]
        sample_options [] = (Inr (Response body (JNumber 200) hs), heap3) \<and>
      headers_get hs ''etag'' = Some ([CHR 0x22] @ ''1446584013'' @ [CHR 0x22])) \<and>
   (\<exists>body hs heap3.
      render_endpoint sample_deps (sample_event ''GET'' [])
        [''GET'' \<mapsto> returning_with_headers [(''cache-control'', ''no-store'')]
                     [(''body'', JObject [(''a'', JNumber 1)])]]
        sample_options [] = (Inr (Response body (JNumber 200) hs), heap3) \<and>
      headers_get hs ''etag'' = None)"
proof -
  let ?r = "JObject [(''body'', JObject [(''a'', JNumber 1)])]"
  let ?nb = "JString (''{'' @ [CHR 0x22] @ ''a'' @ [CHR 0x22] @ '':1}'')"
  have d: "dispatched sample_deps (sample_event ''GET'' []) [''GET'' \<mapsto> returning ?r] [] ?r []"
    by (simp add: dispatched_def sample_defs)
  have a: "accepted sample_deps ?r [] 0 [[]]"
    by (simp add: model_defs sample_defs)
  have e: "encode_body sample_deps sample_options (headers_get (heap_get [[]] 0) ''content-type'')
             (body_of ?r) [[]] 0 =
             (Inr ?nb, [[(''content-type'', ''application/json; charset=utf-8'')]])"
    by (simp add: model_defs sample_defs)
  have h: "[] = heap_get [[]] 0"
    by (simp add: heap_get_def)
  have c: "True =
           ((typeof ?nb = ''string'' \<or> instanceof_Uint8Array ?nb) \<and>
            \<not> headers_has [] ''etag'' \<and>
            (case headers_get [] ''cache-control'' of
               None \<Rightarrow> True
             | Some cc \<Rightarrow> cc = [] \<or> \<not> (includes_str cc ''no-store'' \<or> includes_str cc ''immutable'')))"
    by (simp add: headers_has_def headers_get_def)
  have v: "hash sample_deps ?nb = ''1446584013''"
    by (simp add: sample_defs decimal.simps)
  let ?r' = "JObject [(''headers'', JHeaders 0), (''body'', JObject [(''a'', JNumber 1)])]"
  let ?m' = "[''GET'' \<mapsto> returning_with_headers [(''cache-control'', ''no-store'')]
                     [(''body'', JObject [(''a'', JNumber 1)])]]"
  let ?k0 = "[[(''cache-control'', ''no-store'')]]"
  let ?k1 = "[[(''cache-control'', ''no-store'')], [(''cache-control'', ''no-store'')]]"
  let ?k2 = "[[(''cache-control'', ''no-store'')],
              [(''cache-control'', ''no-store''),
               (''content-type'', ''application/json; charset=utf-8'')]]"
  have d': "dispatched sample_deps (sample_event ''GET'' []) ?m' [] ?r' ?k0"
    by (simp add: dispatched_def sample_defs)
  have a': "accepted sample_deps ?r' ?k0 1 ?k1"
    by (simp add: model_defs sample_defs)
  have e': "encode_body sample_deps sample_options (headers_get (heap_get ?k1 1) ''content-type'')
             (body_of ?r') ?k1 1 = (Inr ?nb, ?k2)"
    by (simp add: model_defs sample_defs)
  have h': "[(''cache-control'', ''no-store'')] = heap_get ?k1 1"
    by (simp add: heap_get_def)
  have c': "False =
           ((typeof ?nb = ''string'' \<or> instanceof_Uint8Array ?nb) \<and>
            \<not> headers_has [(''cache-control'', ''no-store'')] ''etag'' \<and>
            (case headers_get [(''cache-control'', ''no-store'')] ''cache-control'' of
               None \<Rightarrow> True
             | Some cc \<Rightarrow> cc = [] \<or> \<not> (includes_str cc ''no-store'' \<or> includes_str cc ''immutable'')))"
    by (simp add: headers_has_def headers_get_def to_lower_case_def)
  have n': "headers_get [(''cache-control'', ''no-store'')] ''etag'' = None"
    by (simp add: headers_get_def to_lower_case_def)
  have r1: "render_endpoint sample_deps (sample_event ''GET'' []) [''GET'' \<mapsto> returning ?r]
              sample_options [] =
            (Inr (Response ?nb (JNumber 200)
                    [(''content-type'', ''application/json; charset=utf-8''),
                     (''etag'', [CHR 0x22] @ ''1446584013'' @ [CHR 0x22])]),
             [[(''content-type'', ''application/json; charset=utf-8''),
               (''etag'', [CHR 0x22] @ ''1446584013'' @ [CHR 0x22])]])"
    by (simp add: model_defs sample_defs)
  have g1: "headers_get [(''content-type'', ''application/json; charset=utf-8''),
                         (''etag'', [CHR 0x22] @ ''1446584013'' @ [CHR 0x22])] ''etag'' =
            Some ([CHR 0x22] @ ''1446584013'' @ [CHR 0x22])"
    by (simp add: headers_get_def to_lower_case_def)
  have first: "\<exists>body hs heap3.
      render_endpoint sample_deps (sample_event ''GET'' []) [''GET'' \<mapsto> returning ?r]
        sample_options [] = (Inr (Response body (JNumber 200) hs), heap3) \<and>
      headers_get hs ''etag'' = Some ([CHR 0x22] @ ''1446584013'' @ [CHR 0x22])"
    using etag_injection [OF d a e h c] v r1 g1 by blast
  have r2: "render_endpoint sample_deps (sample_event ''GET'' []) ?m' sample_options [] =
            (Inr (Response ?nb (JNumber 200)
                    [(''cache-control'', ''no-store''),
                     (''content-type'', ''application/json; charset=utf-8'')]),
             ?k2)"
    by (simp add: model_defs sample_defs)
  have g2: "headers_get [(''cache-control'', ''no-store''),
                         (''content-type'', ''application/json; charset=utf-8'')] ''etag'' = None"
    by (simp add: headers_get_def to_lower_case_def)
  have second: "\<exists>body hs heap3.
      render_endpoint sample_deps (sample_event ''GET'' []) ?m' sample_options [] =
        (Inr (Response body (JNumber 200) hs), heap3) \<and>
      headers_get hs ''etag'' = None"
    using etag_injection [OF d' a' e' h' c'] n' r2 g2 by blast
  show ?thesis
    using d a e first second by simp
qed

section \<open>The handler's Headers object\<close>

text \<open>
  Claim C10. \<open>render_endpoint\<close> writes to no \<open>Headers\<close> object that existed when the
  handler returned: every one of them holds the same entries afterwards. When the handler's
  result carries a \<open>Headers\<close> instance, the writes of \<open>content-type\<close> and \<open>etag\<close> go to
  the copy of lines 98 to 101. The returned value itself is never written: the model has
  no such operation, as the source has none.
\<close>

theorem handler_headers_untouched:
  assumes "dispatched D event modl heap response heap0"
    and "render_endpoint D event modl options heap = (outcome, heap')"
  shows "take (length heap0) heap' = heap0 \<and>
         (\<forall>a. get_prop response ''headers'' = JHeaders a \<longrightarrow> a < length heap0 \<longrightarrow>
              heap_get heap' a = heap_get heap0 a)"
proof -
  have n: "normalize_response D event options response heap0 = (outcome, heap')"
    using assms(2) by (simp add: render_endpoint_dispatched [OF assms(1)])
  have t: "take (length heap0) heap' = heap0"
    using normalize_response_frame [OF n] .
  have l: "length heap0 \<le> length heap'"
  proof -
    have "length (take (length heap0) heap') = length heap0" by (simp only: t)
    then show ?thesis by simp
  qed
  have "heap_get heap' a = heap_get heap0 a" if "a < length heap0" for a
  proof -
    have "heap' ! a = take (length heap0) heap' ! a" using that by simp
    then show ?thesis using that l t by (simp add: heap_get_def)
  qed
  then show ?thesis using t by simp
qed

theorem handler_headers_untouched_witness:
  "dispatched sample_deps (sample_event ''GET'' [])
     [''GET'' \<mapsto> returning_with_headers [(''x-powered-by'', ''kit'')]
                  [(''body'', JObject [(''a'', JNumber 1)])]] []
     (JObject [(''headers'', JHeaders 0), (''body'', JObject [(''a'', JNumber 1)])])
     [[(''x-powered-by'', ''kit'')]] \<and>
   render_endpoint sample_deps (sample_event ''GET'' [])
     [''GET'' \<mapsto> returning_with_headers [(''x-powered-by'', ''kit'')]
                  [(''body'', JObject [(''a'', JNumber 1)])]] sample_options [] =
     (Inr (Response (JString (''{'' @ [CHR 0x22] @ ''a'' @ [CHR 0x22] @ '':1}'')) (JNumber 200)
             [(''x-powered-by'', ''kit''),
              (''content-type'', ''application/json; charset=utf-8''),
              (''etag'', [CHR 0x22] @ ''1446584013'' @ [CHR 0x22])]),
      [[(''x-powered-by'', ''kit'')],
       [(''x-powered-by'', ''kit''),
        (''content-type'', ''application/json; charset=utf-8''),
        (''etag'', [CHR 0x22] @ ''1446584013'' @ [CHR 0x22])]]) \<and>
   heap_get [[(''x-powered-by'', ''kit'')],
             [(''x-powered-by'', ''kit''),
              (''content-type'', ''application/json; charset=utf-8''),
              (''etag'', [CHR 0x22] @ ''1446584013'' @ [CHR 0x22])]] 0 =
     heap_get [[(''x-powered-by'', ''kit'')]] 0"
proof -
  let ?m = "[''GET'' \<mapsto> returning_with_headers [(''x-powered-by'', ''kit'')]
                  [(''body'', JObject [(''a'', JNumber 1)])]]"
  let ?r = "JObject [(''headers'', JHeaders 0), (''body'', JObject [(''a'', JNumber 1)])]"
  let ?h = "[[(''x-powered-by'', ''kit'')],
       [(''x-powered-by'', ''kit''),
        (''content-type'', ''application/json; charset=utf-8''),
        (''etag'', [CHR 0x22] @ ''1446584013'' @ [CHR 0x22])]]"
  have d: "dispatched sample_deps (sample_event ''GET'' []) ?m [] ?r [[(''x-powered-by'', ''kit'')]]"
    by (simp add: dispatched_def sample_defs)
  have r: "render_endpoint sample_deps (sample_event ''GET'' []) ?m sample_options [] =
     (Inr (Response (JString (''{'' @ [CHR 0x22] @ ''a'' @ [CHR 0x22] @ '':1}'')) (JNumber 200)
             [(''x-powered-by'', ''kit''),
              (''content-type'', ''application/json; charset=utf-8''),
              (''etag'', [CHR 0x22] @ ''1446584013'' @ [CHR 0x22])]), ?h)"
    by (simp add: model_defs sample_defs)
  have g: "get_prop ?r ''headers'' = JHeaders 0" by simp
  show ?thesis
    using d r handler_headers_untouched [OF d r] g by simp
qed

end
